theory Spec2Isabelle
  imports Main "HOL-Library.Word"
begin

unbundle bit_operations_syntax

section \<open>Common conventions\<close>

text \<open>
  The development follows the release build of the engine: \<open>ut_a\<close> and \<open>ut_error\<close>
  are checked and terminate the process, \<open>ut_ad\<close> (debug assertions), the
  \<open>UNIV_DEBUG\<close>, \<open>UNIV_BTR_DEBUG\<close> and \<open>UNIV_SYNC_DEBUG\<close> blocks are compiled
  out. A terminated call is the value \<open>Inl Assertion_failure\<close>.
\<close>

datatype error = Assertion_failure

type_synonym ulint = "64 word"

section \<open>Transaction system: allocation of transaction ids (include/trx0sys.h)\<close>









section \<open>Hash table with external chains (ha/ha0ha.cc)\<close>

text \<open>
  A chain node \<open>ha_node_t\<close> holds the fold value and the data pointer; \<open>node_addr\<close> is
  the address the node was allocated at. The nodes of a cell are linked through \<open>next\<close>:
  a chain is the list of its nodes, the node \<open>cell->node\<close> first, and the last node is
  the one whose \<open>next\<close> is \<open>NULL\<close>.
\<close>

type_synonym data_ptr = nat

record ha_node_t =
  node_addr :: nat
  node_fold :: ulint
  node_data :: data_ptr

type_synonym ha_chain = "ha_node_t list"

text \<open>
  The table, with the two layouts \<open>ha_create_func\<close> sets up (lines 59 to 76): one
  \<open>heap\<close> when \<open>n_mutexes = 0\<close> (then \<open>heaps\<close> is \<open>NULL\<close>, here the empty list), one
  heap per mutex in \<open>heaps\<close> otherwise. The type \<open>'h\<close> is the state of a memory heap.
\<close>

record 'h hash_table_t =
  cells :: "ha_chain list"
  heaps :: "'h list"
  heap :: 'h

text \<open>
  The helpers of hash0hash.h, mem0mem.h and ut0rnd.h are not among the sources and are parameters:
  \<open>hash_calc_hash\<close> maps a fold value and the number of cells to a cell index,
  \<open>hash_get_mutex_no\<close> a fold value and the number of mutexes to the index of its
  stripe, and \<open>mem_heap_alloc\<close> returns the address of the new block, or \<open>None\<close> for
  \<open>NULL\<close> when the memory could not be allocated, together with the heap after the call.
\<close>

record 'h ha_env =
  hash_calc_hash :: "ulint \<Rightarrow> nat \<Rightarrow> nat"
  hash_get_mutex_no :: "ulint \<Rightarrow> nat \<Rightarrow> nat"
  mem_heap_alloc :: "'h \<Rightarrow> nat \<Rightarrow> nat option \<times> 'h"
  sizeof_ha_node_t :: nat

definition hash_get_n_cells :: "'h hash_table_t \<Rightarrow> nat" where
  "hash_get_n_cells table = length (cells table)"

definition hash_get_nth_cell :: "'h hash_table_t \<Rightarrow> nat \<Rightarrow> ha_chain" where
  "hash_get_nth_cell table n = cells table ! n"

definition hash_get_heap :: "'h ha_env \<Rightarrow> 'h hash_table_t \<Rightarrow> ulint \<Rightarrow> 'h" where
  "hash_get_heap env table fold_v =
     (if heaps table = [] then heap table
      else heaps table ! hash_get_mutex_no env fold_v (length (heaps table)))"

text \<open>The heap of the stripe of \<open>fold\<close> after an allocation from it.\<close>

definition hash_set_heap ::
  "'h ha_env \<Rightarrow> 'h hash_table_t \<Rightarrow> ulint \<Rightarrow> 'h \<Rightarrow> 'h hash_table_t" where
  "hash_set_heap env table fold_v h =
     (if heaps table = [] then table\<lparr>heap := h\<rparr>
      else table\<lparr>heaps := (heaps table)[hash_get_mutex_no env fold_v (length (heaps table)) := h]\<rparr>)"

text \<open>
  The first loop of \<open>ha_insert_for_fold_func\<close> (lines 134 to 144): the first node of the
  chain with the fold value gets the new data, and the chain is returned; \<open>None\<close> when the
  loop ends at \<open>NULL\<close>.
\<close>

fun ha_chain_update :: "ulint \<Rightarrow> data_ptr \<Rightarrow> ha_chain \<Rightarrow> ha_chain option" where
  "ha_chain_update fold_v data [] = None"
| "ha_chain_update fold_v data (prev_node # rest) =
     (if node_fold prev_node = fold_v then Some (prev_node\<lparr>node_data := data\<rparr> # rest)
      else map_option ((#) prev_node) (ha_chain_update fold_v data rest))"

text \<open>
  The end of the function (lines 166 to 182): the node becomes the cell's first node when
  the cell is empty, and the \<open>next\<close> of the last node of the chain otherwise.
\<close>

fun ha_chain_link :: "ha_node_t \<Rightarrow> ha_chain \<Rightarrow> ha_chain" where
  "ha_chain_link node [] = [node]"
| "ha_chain_link node (prev_node # rest) = prev_node # ha_chain_link node rest"

definition ha_insert_for_fold_func ::
  "'h ha_env \<Rightarrow> 'h hash_table_t \<Rightarrow> ulint \<Rightarrow> data_ptr \<Rightarrow> bool \<times> 'h hash_table_t" where
  "ha_insert_for_fold_func env table fold_v data =
     (let hash = hash_calc_hash env fold_v (hash_get_n_cells table);
          cell = hash_get_nth_cell table hash
      in case ha_chain_update fold_v data cell of
           Some cell' \<Rightarrow> (True, table\<lparr>cells := (cells table)[hash := cell']\<rparr>)
         | None \<Rightarrow>
             (case mem_heap_alloc env (hash_get_heap env table fold_v) (sizeof_ha_node_t env) of
                (None, h) \<Rightarrow> (False, hash_set_heap env table fold_v h)
              | (Some addr, h) \<Rightarrow>
                  (let node = \<lparr>node_addr = addr, node_fold = fold_v, node_data = data\<rparr>;
                       table1 = hash_set_heap env table fold_v h
                   in (True, table1\<lparr>cells := (cells table1)[hash := ha_chain_link node cell]\<rparr>))))"

text \<open>A table of two cells and an allocator that counts its free bytes.\<close>

definition ha_env_example :: "nat ha_env" where
  "ha_env_example =
     \<lparr>hash_calc_hash = (\<lambda>f n. unat f mod n),
      hash_get_mutex_no = (\<lambda>f n. 0),
      mem_heap_alloc = (\<lambda>h n. if n \<le> h then (Some (100 - h), h - n) else (None, h)),
      sizeof_ha_node_t = 24\<rparr>"

definition ha_table_example :: "nat \<Rightarrow> nat hash_table_t" where
  "ha_table_example free =
     \<lparr>cells = [[], [\<lparr>node_addr = 4, node_fold = 1, node_data = 11\<rparr>,
                    \<lparr>node_addr = 28, node_fold = 3, node_data = 33\<rparr>]],
      heaps = [], heap = free\<rparr>"

section \<open>Pages, blocks and the mini-transaction\<close>

text \<open>
  The page, record and buffer-pool layers (page0page, rem0rec, buf0buf, mtr0mtr, dict0dict)
  are not among the sources. What the persistent cursor reads of them is modelled in this
  section from the data model of the specification; the tree search itself is a
  parameter (section on the environment below).
\<close>

type_synonym page_no_t = "32 word"

definition FIL_NULL :: page_no_t where
  "FIL_NULL = 0xFFFFFFFF"

text \<open>
  Modelled from the spec: a record is an opaque sequence of fields with an index-defined
  key prefix; here the list of its field values.
\<close>

type_synonym rec_fields = "nat list"

type_synonym dtuple_t = "nat list"

text \<open>
  Modelled from the spec: a page "holds an ordered set of records bracketed by two
  sentinels", the infimum and the supremum, and "carries forward/back sibling page numbers
  (FIL_NULL = none)". \<open>page_recs\<close> are the user records in key order.
\<close>

record page_t =
  page_recs :: "rec_fields list"
  page_next :: page_no_t
  page_prev :: page_no_t

text \<open>
  Modelled from the spec: a record pointer \<open>rec_t *\<close> is a "(block_handle, offset)" pair:
  the block whose frame holds the record and the place of the record in the page, which is
  the infimum, the supremum or the \<open>i\<close>-th user record.
\<close>

datatype page_offs = Infimum | User_rec nat | Supremum

type_synonym block_id = nat

type_synonym rec_ptr = "block_id \<times> page_offs"

text \<open>
  Modelled from the spec: a block is "a buffered page frame with ... the modify-clock
  value, and a check at flush flag".
\<close>

record buf_block_t =
  frame :: page_t
  blk_modify_clock :: "64 word"
  blk_space :: nat
  blk_page_no :: page_no_t
  check_index_page_at_flush :: bool

datatype latch_mode_t =
  BTR_SEARCH_LEAF | BTR_MODIFY_LEAF | BTR_NO_LATCHES | BTR_MODIFY_TREE |
  BTR_CONT_MODIFY_TREE | BTR_SEARCH_PREV | BTR_MODIFY_PREV

datatype ib_srch_mode_t = PAGE_CUR_UNSUPP | PAGE_CUR_G | PAGE_CUR_GE | PAGE_CUR_L | PAGE_CUR_LE

datatype mtr_state_t = MTR_ACTIVE | MTR_COMMITTED

text \<open>
  The calls to the collaborators that a claim speaks about are recorded, in the order
  made: an optimistic reacquisition of a block (with its outcome), a search of the tree
  for a tuple, the opening of the cursor at one side of the tree.
\<close>

datatype event =
  Ev_optimistic_get latch_mode_t block_id "64 word" bool
| Ev_tree_search ib_srch_mode_t latch_mode_t dtuple_t
| Ev_open_at_index_side bool latch_mode_t

text \<open>
  The state outside the cursor: the buffer pool (\<open>blocks\<close>, and \<open>page_hash\<close> from space
  and page number to the block), whether a block is still resident and its latch
  uncontended (\<open>bp_available\<close>), the mini-transaction with its memo of latched blocks
  (modelled from the spec: it "owns a memo of (block, latch-kind) entries", and commit
  releases them), and the record of the calls.
\<close>

record world =
  blocks :: "block_id \<Rightarrow> buf_block_t"
  page_hash :: "nat \<Rightarrow> page_no_t \<Rightarrow> block_id"
  bp_available :: "block_id \<Rightarrow> bool"
  mtr_state :: mtr_state_t
  mtr_memo :: "(block_id \<times> latch_mode_t) list"
  trace :: "event list"

text \<open>
  Modelled from the spec: the mini-transaction has the states ACTIVE and COMMITTED;
  "commit releases all memo entries", and a started mini-transaction holds none.
\<close>

definition mtr_start :: "world \<Rightarrow> world" where
  "mtr_start w = w\<lparr>mtr_state := MTR_ACTIVE, mtr_memo := []\<rparr>"

definition mtr_commit :: "world \<Rightarrow> world" where
  "mtr_commit w = w\<lparr>mtr_state := MTR_COMMITTED, mtr_memo := []\<rparr>"

subsection \<open>Page and record accessors\<close>

text \<open>
  Modelled from the spec: the accessors of the block, the page and the record pointer
  (buf0buf, page0page, btr0btr) read the fields of the data model above. The page of a
  record pointer is the frame of its block, its offset the place in that page.
\<close>

definition buf_block_get_frame :: "world \<Rightarrow> block_id \<Rightarrow> page_t" where
  "buf_block_get_frame w block = frame (blocks w block)"

definition buf_block_get_modify_clock :: "world \<Rightarrow> block_id \<Rightarrow> 64 word" where
  "buf_block_get_modify_clock w block = blk_modify_clock (blocks w block)"

definition buf_block_get_space :: "world \<Rightarrow> block_id \<Rightarrow> nat" where
  "buf_block_get_space w block = blk_space (blocks w block)"

definition page_align :: "world \<Rightarrow> rec_ptr \<Rightarrow> page_t" where
  "page_align w rec = buf_block_get_frame w (fst rec)"

definition page_offset :: "rec_ptr \<Rightarrow> page_offs" where
  "page_offset rec = snd rec"

definition page_get_n_recs :: "page_t \<Rightarrow> nat" where
  "page_get_n_recs page = length (page_recs page)"

definition btr_page_get_next :: "page_t \<Rightarrow> page_no_t" where
  "btr_page_get_next page = page_next page"

definition btr_page_get_prev :: "page_t \<Rightarrow> page_no_t" where
  "btr_page_get_prev page = page_prev page"

definition page_rec_is_supremum_low :: "page_offs \<Rightarrow> bool" where
  "page_rec_is_supremum_low offs \<longleftrightarrow> offs = Supremum"

definition page_rec_is_infimum_low :: "page_offs \<Rightarrow> bool" where
  "page_rec_is_infimum_low offs \<longleftrightarrow> offs = Infimum"

text \<open>
  Modelled from the spec: the page cursor "moves to next/prev record or sentinel". The
  record before and the record after a record of a page: the predecessor of the
  supremum is the last user record (the infimum on a page without user records), the
  successor of the infimum the first user record (the supremum on such a page). The
  infimum has no predecessor and the supremum no successor; the functions are not called
  there by the code of this development and leave the pointer where it is.
\<close>

definition page_rec_get_prev :: "world \<Rightarrow> rec_ptr \<Rightarrow> rec_ptr" where
  "page_rec_get_prev w rec =
     (let n = page_get_n_recs (page_align w rec)
      in (fst rec,
          (case snd rec of
             Supremum \<Rightarrow> (if n = 0 then Infimum else User_rec (n - 1))
           | User_rec i \<Rightarrow> (if i = 0 then Infimum else User_rec (i - 1))
           | Infimum \<Rightarrow> Infimum)))"

definition page_rec_get_next :: "world \<Rightarrow> rec_ptr \<Rightarrow> rec_ptr" where
  "page_rec_get_next w rec =
     (let n = page_get_n_recs (page_align w rec)
      in (fst rec,
          (case snd rec of
             Infimum \<Rightarrow> (if n = 0 then Supremum else User_rec 0)
           | User_rec i \<Rightarrow> (if Suc i < n then User_rec (Suc i) else Supremum)
           | Supremum \<Rightarrow> Supremum)))"

text \<open>
  Modelled from the spec: the fields of the record a pointer addresses. The sentinels
  carry no fields of the index; a pointer past the user records of its page reads no
  fields.
\<close>

definition rec_get_fields :: "world \<Rightarrow> rec_ptr \<Rightarrow> rec_fields" where
  "rec_get_fields w rec =
     (case snd rec of
        User_rec i \<Rightarrow>
          (if i < page_get_n_recs (page_align w rec) then page_recs (page_align w rec) ! i
           else [])
      | _ \<Rightarrow> [])"

text \<open>
  Modelled from the spec: the index gives "an order-prefix copy of length n-fields
  sufficient to re-find the record" (\<open>copy_rec_order_prefix\<close>) and builds a search tuple
  from a stored prefix (\<open>build_data_tuple\<close>). Of the index the number of fields of that
  prefix is kept. The copy returns the prefix, its number of fields and the buffer that
  now holds it.
\<close>

record dict_index_t =
  index_id :: nat
  n_uniq_in_tree :: nat

definition dict_index_copy_rec_order_prefix ::
  "dict_index_t \<Rightarrow> rec_fields \<Rightarrow> rec_fields \<times> nat \<times> rec_fields option" where
  "dict_index_copy_rec_order_prefix index rec =
     (let n = n_uniq_in_tree index; copy = take n rec
      in (copy, n, Some copy))"

definition dict_index_build_data_tuple :: "dict_index_t \<Rightarrow> rec_fields \<Rightarrow> nat \<Rightarrow> dtuple_t" where
  "dict_index_build_data_tuple index rec n_fields = take n_fields rec"

subsection \<open>Buffer pool operations\<close>

text \<open>
  Modelled from the spec: \<open>optimistic_get\<close> "succeeds iff page still resident,
  uncontended, and clock matches"; on success the block is latched in the requested
  mode and entered in the memo of the mini-transaction.
\<close>

definition buf_page_optimistic_get ::
  "latch_mode_t \<Rightarrow> block_id \<Rightarrow> 64 word \<Rightarrow> world \<Rightarrow> bool \<times> world" where
  "buf_page_optimistic_get latch block clock w =
     (let ok = (bp_available w block \<and> buf_block_get_modify_clock w block = clock);
          w = w\<lparr>trace := trace w @ [Ev_optimistic_get latch block clock ok]\<rparr>
      in if ok then (True, w\<lparr>mtr_memo := mtr_memo w @ [(block, latch)]\<rparr>)
         else (False, w))"

text \<open>
  Modelled from the spec: \<open>get(space, page_no, latch_mode, mtr)\<close> "always succeeds,
  possibly blocking", and \<open>release_leaf(block, latch_mode, mtr)\<close> is the early release
  of one latch of the memo.
\<close>

definition btr_block_get ::
  "nat \<Rightarrow> page_no_t \<Rightarrow> latch_mode_t \<Rightarrow> world \<Rightarrow> block_id \<times> world" where
  "btr_block_get space page_no latch w =
     (let block = page_hash w space page_no
      in (block, w\<lparr>mtr_memo := mtr_memo w @ [(block, latch)]\<rparr>))"

definition btr_leaf_page_release :: "block_id \<Rightarrow> latch_mode_t \<Rightarrow> world \<Rightarrow> world" where
  "btr_leaf_page_release block latch w = w\<lparr>mtr_memo := remove1 (block, latch) (mtr_memo w)\<rparr>"

text \<open>The assignment \<open>next_block->check_index_page_at_flush = true\<close> on a block.\<close>

definition set_check_index_page_at_flush :: "block_id \<Rightarrow> world \<Rightarrow> world" where
  "set_check_index_page_at_flush block w =
     w\<lparr>blocks := (blocks w)(block := (blocks w block)\<lparr>check_index_page_at_flush := True\<rparr>)\<rparr>"

section \<open>The persistent cursor (btr/btr0pcur.cc)\<close>

datatype pos_state_t =
  BTR_PCUR_IS_POSITIONED | BTR_PCUR_WAS_POSITIONED | BTR_PCUR_NOT_POSITIONED

datatype old_stored_t = BTR_PCUR_OLD_STORED | BTR_PCUR_OLD_NOT_STORED

datatype rel_pos_t =
  BTR_PCUR_ON | BTR_PCUR_BEFORE | BTR_PCUR_AFTER |
  BTR_PCUR_BEFORE_FIRST_IN_TREE | BTR_PCUR_AFTER_LAST_IN_TREE

record page_cur_t =
  pc_rec :: rec_ptr
  pc_block :: block_id

record btr_cur_t =
  m_index :: dict_index_t
  m_page_cur :: page_cur_t
  left_block :: block_id

text \<open>
  The fields of \<open>btr_pcur_t\<close> that btr0pcur.cc reads and writes. \<open>old_rec\<close> is \<open>None\<close>
  for \<open>NULL\<close> and otherwise the copied prefix it points at inside \<open>old_rec_buf\<close>.
\<close>

record btr_pcur_t =
  btr_cur :: btr_cur_t
  latch_mode :: latch_mode_t
  old_stored :: old_stored_t
  old_rec :: "rec_fields option"
  old_n_fields :: nat
  rel_pos :: rel_pos_t
  block_when_stored :: block_id
  modify_clock :: "64 word"
  pos_state :: pos_state_t
  search_mode :: ib_srch_mode_t
  trx_if_known :: "nat option"
  old_rec_buf :: "rec_fields option"

text \<open>
  Modelled from the spec: the inline accessors and position tests of btr0pcur.ic and
  page0cur.ic are not among the sources. The persistent cursor "composes" a tree cursor
  and a page cursor, which "addresses a record slot within one page frame"; the accessors
  read these, the tests compare the slot with the two sentinels, and the two setters put
  the page cursor on the infimum or the supremum of a block.
\<close>

definition btr_pcur_get_btr_cur :: "btr_pcur_t \<Rightarrow> btr_cur_t" where
  "btr_pcur_get_btr_cur cursor = btr_cur cursor"

definition btr_cur_get_index :: "btr_cur_t \<Rightarrow> dict_index_t" where
  "btr_cur_get_index cur = m_index cur"

definition btr_pcur_get_page_cur :: "btr_pcur_t \<Rightarrow> page_cur_t" where
  "btr_pcur_get_page_cur cursor = m_page_cur (btr_cur cursor)"

definition page_cur_get_rec :: "page_cur_t \<Rightarrow> rec_ptr" where
  "page_cur_get_rec page_cursor = pc_rec page_cursor"

definition btr_pcur_get_rec :: "btr_pcur_t \<Rightarrow> rec_ptr" where
  "btr_pcur_get_rec cursor = page_cur_get_rec (btr_pcur_get_page_cur cursor)"

definition btr_pcur_get_block :: "btr_pcur_t \<Rightarrow> block_id" where
  "btr_pcur_get_block cursor = pc_block (btr_pcur_get_page_cur cursor)"

definition btr_pcur_get_page :: "world \<Rightarrow> btr_pcur_t \<Rightarrow> page_t" where
  "btr_pcur_get_page w cursor = page_align w (btr_pcur_get_rec cursor)"

definition btr_pcur_is_after_last_on_page :: "btr_pcur_t \<Rightarrow> bool" where
  "btr_pcur_is_after_last_on_page cursor \<longleftrightarrow>
     page_rec_is_supremum_low (page_offset (btr_pcur_get_rec cursor))"

definition btr_pcur_is_before_first_on_page :: "btr_pcur_t \<Rightarrow> bool" where
  "btr_pcur_is_before_first_on_page cursor \<longleftrightarrow>
     page_rec_is_infimum_low (page_offset (btr_pcur_get_rec cursor))"

definition btr_pcur_is_on_user_rec :: "btr_pcur_t \<Rightarrow> bool" where
  "btr_pcur_is_on_user_rec cursor \<longleftrightarrow>
     \<not> (btr_pcur_is_before_first_on_page cursor \<or> btr_pcur_is_after_last_on_page cursor)"

definition page_cur_set_before_first :: "block_id \<Rightarrow> btr_pcur_t \<Rightarrow> btr_pcur_t" where
  "page_cur_set_before_first block cursor =
     cursor\<lparr>btr_cur := (btr_cur cursor)
       \<lparr>m_page_cur := \<lparr>pc_rec = (block, Infimum), pc_block = block\<rparr>\<rparr>\<rparr>"

definition page_cur_set_after_last :: "block_id \<Rightarrow> btr_pcur_t \<Rightarrow> btr_pcur_t" where
  "page_cur_set_after_last block cursor =
     cursor\<lparr>btr_cur := (btr_cur cursor)
       \<lparr>m_page_cur := \<lparr>pc_rec = (block, Supremum), pc_block = block\<rparr>\<rparr>\<rparr>"

subsection \<open>The environment: tree search and comparison\<close>

text \<open>
  The B-tree search (btr0cur), the record comparison (rem0cmp) and the inline cursor
  movement of btr0pcur.ic are not among the sources; they are parameters. A search works
  on the tree cursor inside the persistent cursor and on the state outside; the
  comparison takes the search tuple and the fields of a record.
\<close>

record env =
  btr_cur_search_to_nth_level ::
    "dict_index_t \<Rightarrow> dtuple_t \<Rightarrow> ib_srch_mode_t \<Rightarrow> latch_mode_t \<Rightarrow> btr_cur_t \<Rightarrow> world \<Rightarrow>
     btr_cur_t \<times> world"
  btr_cur_open_at_index_side_oracle ::
    "bool \<Rightarrow> dict_index_t \<Rightarrow> latch_mode_t \<Rightarrow> btr_cur_t \<Rightarrow> world \<Rightarrow> btr_cur_t \<times> world"
  cmp_dtuple_rec :: "dtuple_t \<Rightarrow> rec_fields \<Rightarrow> int"
  btr_pcur_move_to_next_user_rec :: "btr_pcur_t \<Rightarrow> world \<Rightarrow> btr_pcur_t \<times> world"

text \<open>
  A search of the tree at the leaf level: the search of the environment, entered in the
  record of calls.
\<close>

definition btr_cur_search_leaf ::
  "env \<Rightarrow> dict_index_t \<Rightarrow> dtuple_t \<Rightarrow> ib_srch_mode_t \<Rightarrow> latch_mode_t \<Rightarrow> btr_cur_t \<Rightarrow> world \<Rightarrow>
   btr_cur_t \<times> world" where
  "btr_cur_search_leaf env index tuple mode latch cur w =
     (let (cur', w') = btr_cur_search_to_nth_level env index tuple mode latch cur w
      in (cur', w'\<lparr>trace := trace w @ [Ev_tree_search mode latch tuple]\<rparr>))"

definition btr_cur_open_at_index_side ::
  "env \<Rightarrow> bool \<Rightarrow> dict_index_t \<Rightarrow> latch_mode_t \<Rightarrow> btr_cur_t \<Rightarrow> world \<Rightarrow> btr_cur_t \<times> world" where
  "btr_cur_open_at_index_side env from_left index latch cur w =
     (let (cur', w') = btr_cur_open_at_index_side_oracle env from_left index latch cur w
      in (cur', w'\<lparr>trace := trace w @ [Ev_open_at_index_side from_left latch]\<rparr>))"

text \<open>
  Modelled from the spec: btr0pcur.ic is not among the sources. An opened cursor is
  "(IS_POSITIONED, latched)": opening records the latch mode and the search mode, searches
  the tree with the tree cursor and leaves the cursor positioned; the snapshot of an
  earlier \<open>store_position\<close> no longer counts (line 290 of btr0pcur.cc sets \<open>old_stored\<close>
  again after the reopening). \<open>btr_pcur_open_func\<close> initialises the cursor first.
\<close>

definition btr_pcur_open_with_no_init_func ::
  "env \<Rightarrow> dict_index_t \<Rightarrow> dtuple_t \<Rightarrow> ib_srch_mode_t \<Rightarrow> latch_mode_t \<Rightarrow> btr_pcur_t \<Rightarrow> world \<Rightarrow>
   btr_pcur_t \<times> world" where
  "btr_pcur_open_with_no_init_func env index tuple mode latch cursor w =
     (let cursor = cursor\<lparr>latch_mode := latch\<rparr>;
          cursor = cursor\<lparr>search_mode := mode\<rparr>;
          (cur, w) = btr_cur_search_leaf env index tuple mode latch (btr_pcur_get_btr_cur cursor) w;
          cursor = cursor\<lparr>btr_cur := cur\<rparr>;
          cursor = cursor\<lparr>pos_state := BTR_PCUR_IS_POSITIONED\<rparr>;
          cursor = cursor\<lparr>old_stored := BTR_PCUR_OLD_NOT_STORED\<rparr>;
          cursor = cursor\<lparr>trx_if_known := None\<rparr>
      in (cursor, w))"

definition btr_pcur_init :: "btr_pcur_t \<Rightarrow> btr_pcur_t" where
  "btr_pcur_init pcur =
     pcur\<lparr>old_stored := BTR_PCUR_OLD_NOT_STORED, old_rec_buf := None, old_rec := None\<rparr>"

definition btr_pcur_open_func ::
  "env \<Rightarrow> dict_index_t \<Rightarrow> dtuple_t \<Rightarrow> ib_srch_mode_t \<Rightarrow> latch_mode_t \<Rightarrow> btr_pcur_t \<Rightarrow> world \<Rightarrow>
   btr_pcur_t \<times> world" where
  "btr_pcur_open_func env index tuple mode latch cursor w =
     (let cursor = btr_pcur_init cursor;
          cursor = cursor\<lparr>latch_mode := latch\<rparr>;
          cursor = cursor\<lparr>search_mode := mode\<rparr>;
          (cur, w) = btr_cur_search_leaf env index tuple mode latch (btr_pcur_get_btr_cur cursor) w;
          cursor = cursor\<lparr>btr_cur := cur\<rparr>;
          cursor = cursor\<lparr>pos_state := BTR_PCUR_IS_POSITIONED\<rparr>;
          cursor = cursor\<lparr>trx_if_known := None\<rparr>
      in (cursor, w))"

subsection \<open>\<open>btr_pcur_store_position\<close> (lines 71 to 138)\<close>

text \<open>
  The mini-transaction is only read by the debug assertion of line 95; the function reads
  the state outside the cursor and changes the cursor.
\<close>

definition btr_pcur_store_position :: "world \<Rightarrow> btr_pcur_t \<Rightarrow> error + btr_pcur_t" where
  "btr_pcur_store_position w cursor =
     (if pos_state cursor \<noteq> BTR_PCUR_IS_POSITIONED then Inl Assertion_failure
      else
        let block = btr_pcur_get_block cursor;
            index = btr_cur_get_index (btr_pcur_get_btr_cur cursor);
            page_cursor = btr_pcur_get_page_cur cursor;
            rec = page_cur_get_rec page_cursor;
            page = page_align w rec;
            offs = page_offset rec
        in if latch_mode cursor = BTR_NO_LATCHES then Inl Assertion_failure
           else if page_get_n_recs page = 0 then
             (if btr_page_get_next page \<noteq> FIL_NULL then Inl Assertion_failure
              else if btr_page_get_prev page \<noteq> FIL_NULL then Inl Assertion_failure
              else
                let cursor = cursor\<lparr>old_stored := BTR_PCUR_OLD_STORED\<rparr>
                in if page_rec_is_supremum_low offs
                   then Inr (cursor\<lparr>rel_pos := BTR_PCUR_AFTER_LAST_IN_TREE\<rparr>)
                   else Inr (cursor\<lparr>rel_pos := BTR_PCUR_BEFORE_FIRST_IN_TREE\<rparr>))
           else
             let (rec, cursor) =
                   (if page_rec_is_supremum_low offs
                    then (page_rec_get_prev w rec, cursor\<lparr>rel_pos := BTR_PCUR_AFTER\<rparr>)
                    else if page_rec_is_infimum_low offs
                    then (page_rec_get_next w rec, cursor\<lparr>rel_pos := BTR_PCUR_BEFORE\<rparr>)
                    else (rec, cursor\<lparr>rel_pos := BTR_PCUR_ON\<rparr>));
                 cursor = cursor\<lparr>old_stored := BTR_PCUR_OLD_STORED\<rparr>;
                 (copy, n_fields, buf) =
                   dict_index_copy_rec_order_prefix index (rec_get_fields w rec);
                 cursor = cursor\<lparr>old_rec := Some copy, old_n_fields := n_fields,
                                 old_rec_buf := buf\<rparr>;
                 cursor = cursor\<lparr>block_when_stored := block\<rparr>;
                 cursor = cursor\<lparr>modify_clock := buf_block_get_modify_clock w block\<rparr>
             in Inr cursor)"

subsection \<open>\<open>btr_pcur_restore_position_func\<close> (lines 181 to 306)\<close>

text \<open>
  Lines 259 to 306: the cursor is opened anew by a search for the stored prefix
  \<open>old\<close> (the record \<open>old_rec\<close> points at).
\<close>

definition btr_pcur_restore_position_search ::
  "env \<Rightarrow> latch_mode_t \<Rightarrow> rec_fields \<Rightarrow> btr_pcur_t \<Rightarrow> world \<Rightarrow>
   error + (bool \<times> btr_pcur_t \<times> world)" where
  "btr_pcur_restore_position_search env latch old cursor w =
     (let index = btr_cur_get_index (btr_pcur_get_btr_cur cursor);
          tuple = dict_index_build_data_tuple index old (old_n_fields cursor);
          old_mode = search_mode cursor;
          mode = (if rel_pos cursor = BTR_PCUR_ON then PAGE_CUR_LE
                  else if rel_pos cursor = BTR_PCUR_AFTER then PAGE_CUR_G
                  else PAGE_CUR_L);
          (cursor, w) = btr_pcur_open_with_no_init_func env index tuple mode latch cursor w;
          cursor = cursor\<lparr>search_mode := old_mode\<rparr>
      in if rel_pos cursor = BTR_PCUR_ON \<and> btr_pcur_is_on_user_rec cursor \<and>
            0 = cmp_dtuple_rec env tuple (rec_get_fields w (btr_pcur_get_rec cursor))
         then
           let cursor = cursor\<lparr>block_when_stored := btr_pcur_get_block cursor\<rparr>;
               cursor = cursor\<lparr>modify_clock :=
                          buf_block_get_modify_clock w (block_when_stored cursor)\<rparr>;
               cursor = cursor\<lparr>old_stored := BTR_PCUR_OLD_STORED\<rparr>
           in Inr (True, cursor, w)
         else
           (case btr_pcur_store_position w cursor of
              Inl e \<Rightarrow> Inl e
            | Inr cursor \<Rightarrow> Inr (False, cursor, w)))"

definition btr_pcur_restore_position_func ::
  "env \<Rightarrow> latch_mode_t \<Rightarrow> btr_pcur_t \<Rightarrow> world \<Rightarrow> error + (bool \<times> btr_pcur_t \<times> world)" where
  "btr_pcur_restore_position_func env latch cursor w =
     (let index = btr_cur_get_index (btr_pcur_get_btr_cur cursor)
      in if old_stored cursor \<noteq> BTR_PCUR_OLD_STORED \<or>
            (pos_state cursor \<noteq> BTR_PCUR_WAS_POSITIONED \<and>
             pos_state cursor \<noteq> BTR_PCUR_IS_POSITIONED)
         then Inl Assertion_failure
         else if rel_pos cursor = BTR_PCUR_AFTER_LAST_IN_TREE \<or>
                 rel_pos cursor = BTR_PCUR_BEFORE_FIRST_IN_TREE
         then
           let (cur, w) = btr_cur_open_at_index_side env
                            (rel_pos cursor = BTR_PCUR_BEFORE_FIRST_IN_TREE) index latch
                            (btr_pcur_get_btr_cur cursor) w;
               cursor = cursor\<lparr>btr_cur := cur\<rparr>;
               cursor = cursor\<lparr>block_when_stored := btr_pcur_get_block cursor\<rparr>
           in Inr (False, cursor, w)
         else
           (case old_rec cursor of
              None \<Rightarrow> Inl Assertion_failure
            | Some old \<Rightarrow>
                if old_n_fields cursor = 0 then Inl Assertion_failure
                else
                  let (ok, w) =
                        (if latch = BTR_SEARCH_LEAF \<or> latch = BTR_MODIFY_LEAF
                         then buf_page_optimistic_get latch (block_when_stored cursor)
                                (modify_clock cursor) w
                         else (False, w))
                  in if ok then
                       let cursor = cursor\<lparr>pos_state := BTR_PCUR_IS_POSITIONED\<rparr>
                       in if rel_pos cursor = BTR_PCUR_ON
                          then Inr (True, cursor\<lparr>latch_mode := latch\<rparr>, w)
                          else Inr (False, cursor, w)
                     else btr_pcur_restore_position_search env latch old cursor w))"

subsection \<open>\<open>btr_pcur_release_leaf\<close>, page moves and \<open>btr_pcur_open_on_user_rec_func\<close>\<close>

definition btr_pcur_release_leaf :: "btr_pcur_t \<Rightarrow> world \<Rightarrow> error + (btr_pcur_t \<times> world)" where
  "btr_pcur_release_leaf cursor w =
     (if pos_state cursor \<noteq> BTR_PCUR_IS_POSITIONED then Inl Assertion_failure
      else
        let block = btr_pcur_get_block cursor;
            w = btr_leaf_page_release block (latch_mode cursor) w;
            cursor = cursor\<lparr>latch_mode := BTR_NO_LATCHES\<rparr>;
            cursor = cursor\<lparr>pos_state := BTR_PCUR_WAS_POSITIONED\<rparr>
        in Inr (cursor, w))"

text \<open>
  \<open>btr_pcur_move_to_next_page\<close> (lines 333 to 365). \<open>page_check_dir\<close> only reports
  and has no effect.
\<close>

definition btr_pcur_move_to_next_page ::
  "btr_pcur_t \<Rightarrow> world \<Rightarrow> error + (btr_pcur_t \<times> world)" where
  "btr_pcur_move_to_next_page cursor w =
     (if pos_state cursor \<noteq> BTR_PCUR_IS_POSITIONED then Inl Assertion_failure
      else
        let cursor = cursor\<lparr>old_stored := BTR_PCUR_OLD_NOT_STORED\<rparr>;
            page = btr_pcur_get_page w cursor;
            next_page_no = btr_page_get_next page;
            space = buf_block_get_space w (btr_pcur_get_block cursor);
            (next_block, w) = btr_block_get space next_page_no (latch_mode cursor) w;
            w = set_check_index_page_at_flush next_block w;
            w = btr_leaf_page_release (btr_pcur_get_block cursor) (latch_mode cursor) w;
            cursor = page_cur_set_before_first next_block cursor
        in Inr (cursor, w))"

text \<open>\<open>btr_pcur_move_backward_from_page\<close> (lines 367 to 427).\<close>

definition btr_pcur_move_backward_from_page ::
  "env \<Rightarrow> btr_pcur_t \<Rightarrow> world \<Rightarrow> error + (btr_pcur_t \<times> world)" where
  "btr_pcur_move_backward_from_page env cursor w =
     (if pos_state cursor \<noteq> BTR_PCUR_IS_POSITIONED then Inl Assertion_failure
      else
        let latch = latch_mode cursor
        in case (if latch = BTR_SEARCH_LEAF then Inr BTR_SEARCH_PREV
                 else if latch = BTR_MODIFY_LEAF then Inr BTR_MODIFY_PREV
                 else Inl Assertion_failure) of
             Inl e \<Rightarrow> Inl e
           | Inr latch_mode2 \<Rightarrow>
               (case btr_pcur_store_position w cursor of
                  Inl e \<Rightarrow> Inl e
                | Inr cursor \<Rightarrow>
                    let w = mtr_commit w;
                        w = mtr_start w
                    in case btr_pcur_restore_position_func env latch_mode2 cursor w of
                         Inl e \<Rightarrow> Inl e
                       | Inr (restored, cursor, w) \<Rightarrow>
                           let page = btr_pcur_get_page w cursor;
                               prev_page_no = btr_page_get_prev page;
                               (cursor, w) =
                                 (if prev_page_no = FIL_NULL then (cursor, w)
                                  else if btr_pcur_is_before_first_on_page cursor then
                                    let prev_block = left_block (btr_pcur_get_btr_cur cursor);
                                        w = btr_leaf_page_release (btr_pcur_get_block cursor)
                                              latch w
                                    in (page_cur_set_after_last prev_block cursor, w)
                                  else
                                    let prev_block = left_block (btr_pcur_get_btr_cur cursor)
                                    in (cursor, btr_leaf_page_release prev_block latch w));
                               cursor = cursor\<lparr>latch_mode := latch\<rparr>;
                               cursor = cursor\<lparr>old_stored := BTR_PCUR_OLD_NOT_STORED\<rparr>
                           in Inr (cursor, w)))"

text \<open>
  \<open>btr_pcur_open_on_user_rec_func\<close> (lines 436 to 464): the cursor is opened first, for
  every mode; the modes other than \<open>PAGE_CUR_GE\<close> and \<open>PAGE_CUR_G\<close> end in \<open>ut_error\<close>.
\<close>

definition btr_pcur_open_on_user_rec_func ::
  "env \<Rightarrow> dict_index_t \<Rightarrow> dtuple_t \<Rightarrow> ib_srch_mode_t \<Rightarrow> latch_mode_t \<Rightarrow> btr_pcur_t \<Rightarrow> world \<Rightarrow>
   error + (btr_pcur_t \<times> world)" where
  "btr_pcur_open_on_user_rec_func env index tuple mode latch cursor w =
     (let (cursor, w) = btr_pcur_open_func env index tuple mode latch cursor w
      in if mode = PAGE_CUR_GE \<or> mode = PAGE_CUR_G then
           (if btr_pcur_is_after_last_on_page cursor
            then Inr (btr_pcur_move_to_next_user_rec env cursor w)
            else Inr (cursor, w))
         else Inl Assertion_failure)"

text \<open>
  \<open>store_position\<close> in the state \<open>w\<close>, followed by \<open>restore_position\<close> in the state
  \<open>w'\<close> (the state after the commit of the first mini-transaction and the start of the next).
\<close>

definition store_then_restore ::
  "env \<Rightarrow> latch_mode_t \<Rightarrow> world \<Rightarrow> btr_pcur_t \<Rightarrow> world \<Rightarrow>
   error + (bool \<times> btr_pcur_t \<times> world)" where
  "store_then_restore env latch w cursor w' =
     (case btr_pcur_store_position w cursor of
        Inl e \<Rightarrow> Inl e
      | Inr cursor \<Rightarrow> btr_pcur_restore_position_func env latch cursor w')"

text \<open>
  What an unmodified tree means for the search, which is a parameter: the doc comment of
  \<open>btr_pcur_restore_position_func\<close> (lines 168 and 169) restores a position stored on a
  user record "to the last record LESS OR EQUAL to the stored record", and on a tree that
  did not change this is the record itself. The search of the environment in the mode
  \<open>PAGE_CUR_LE\<close>, started in the state \<open>w_tried\<close> for the order prefix of the record
  under the cursor, finds that record again: it lands where the cursor stands, leaves the
  pages as they were in the state \<open>w\<close> of the store, and the comparison of the prefix
  with the record is 0.
\<close>

definition search_refinds ::
  "env \<Rightarrow> latch_mode_t \<Rightarrow> btr_pcur_t \<Rightarrow> world \<Rightarrow> world \<Rightarrow> bool" where
  "search_refinds env latch cursor w w_tried \<longleftrightarrow>
     (let index = m_index (btr_cur cursor);
          rec = rec_get_fields w (btr_pcur_get_rec cursor);
          tuple = take (n_uniq_in_tree index) rec;
          found = btr_cur_search_to_nth_level env index tuple PAGE_CUR_LE latch
                    (btr_cur cursor) w_tried
      in m_page_cur (fst found) = m_page_cur (btr_cur cursor) \<and>
         blocks (snd found) = blocks w \<and>
         cmp_dtuple_rec env tuple rec = 0)"

section \<open>Row undo: the search of the clustered index (row/row0undo.cc)\<close>

type_synonym roll_ptr_t = "64 word"

text \<open>An update vector: the field numbers with their new values.\<close>

type_synonym upd_t = "(nat \<times> nat) list"

record dict_table_t =
  first_index :: dict_index_t

definition get_first_index :: "dict_table_t \<Rightarrow> dict_index_t" where
  "get_first_index t = first_index t"

text \<open>
  The fields of \<open>Undo_node\<close> that \<open>row_undo_search_clust_to_pcur\<close> reads and writes. A
  null pointer is \<open>None\<close>; \<open>ext\<close> and \<open>undo_ext\<close> are the descriptors of the
  externally stored fields.
\<close>

record Undo_node =
  m_pcur :: btr_pcur_t
  table :: dict_table_t
  ref :: dtuple_t
  roll_ptr :: roll_ptr_t
  row :: "dtuple_t option"
  ext :: "nat option"
  undo_row :: "dtuple_t option"
  undo_ext :: "nat option"
  update :: "upd_t option"

text \<open>
  The row operations (row0row, row0upd) are not among the sources; they are parameters:
  the search of the clustered index by a row reference, which opens the cursor and tells
  whether the record was found, the roll pointer of a record, the building of a row from a
  record and the replacement of the updated fields of a row, each of the last two with the
  descriptor of the externally stored fields.
\<close>

record row_env =
  row_search_on_row_ref ::
    "latch_mode_t \<Rightarrow> dict_table_t \<Rightarrow> dtuple_t \<Rightarrow> btr_pcur_t \<Rightarrow> world \<Rightarrow>
     bool \<times> btr_pcur_t \<times> world"
  row_get_rec_roll_ptr :: "rec_fields \<Rightarrow> dict_index_t \<Rightarrow> roll_ptr_t"
  row_build :: "dict_index_t \<Rightarrow> rec_fields \<Rightarrow> dtuple_t \<times> nat option"
  row_upd_replace :: "dtuple_t \<Rightarrow> dict_index_t \<Rightarrow> upd_t \<Rightarrow> dtuple_t \<times> nat option"

definition dtuple_copy :: "dtuple_t \<Rightarrow> dtuple_t" where
  "dtuple_copy tuple = tuple"

text \<open>
  Modelled from the spec: the cursor "remains IS_POSITIONED until MTR commit demotes it to
  WAS_POSITIONED"; the commit releases the latches, and the cursor holds none afterwards.
\<close>

definition commit_specify_mtr :: "btr_pcur_t \<Rightarrow> world \<Rightarrow> btr_pcur_t \<times> world" where
  "commit_specify_mtr pcur w =
     (let pcur = pcur\<lparr>latch_mode := BTR_NO_LATCHES\<rparr>;
          w = mtr_commit w;
          pcur = pcur\<lparr>pos_state := BTR_PCUR_WAS_POSITIONED\<rparr>
      in (pcur, w))"

text \<open>
  \<open>row_undo_search_clust_to_pcur\<close> (lines 135 to 190). The mini-transaction is the
  local \<open>mtr\<close> of the function; the heap of the offsets has no effect on the result.
\<close>

definition row_undo_search_clust_to_pcur ::
  "row_env \<Rightarrow> Undo_node \<Rightarrow> world \<Rightarrow> error + (bool \<times> Undo_node \<times> world)" where
  "row_undo_search_clust_to_pcur renv node w =
     (let w = mtr_start w;
          clust_index = get_first_index (table node);
          (found, pcur, w) =
            row_search_on_row_ref renv BTR_MODIFY_LEAF (table node) (ref node) (m_pcur node) w;
          node = node\<lparr>m_pcur := pcur\<rparr>;
          rec = btr_pcur_get_rec (m_pcur node)
      in case
           (if \<not> found \<or>
               roll_ptr node \<noteq> row_get_rec_roll_ptr renv (rec_get_fields w rec) clust_index
            then Inr (False, node)
            else
              let (r, e) = row_build renv clust_index (rec_get_fields w rec);
                  node = node\<lparr>row := Some r, ext := e\<rparr>;
                  node =
                    (case update node of
                       Some u \<Rightarrow>
                         (let (ur, ue) = row_upd_replace renv (dtuple_copy r) clust_index u
                          in node\<lparr>undo_row := Some ur, undo_ext := ue\<rparr>)
                     | None \<Rightarrow> node\<lparr>undo_row := None, undo_ext := None\<rparr>)
              in case btr_pcur_store_position w (m_pcur node) of
                   Inl err \<Rightarrow> Inl err
                 | Inr pcur \<Rightarrow> Inr (True, node\<lparr>m_pcur := pcur\<rparr>))
         of
           Inl err \<Rightarrow> Inl err
         | Inr (ret, node) \<Rightarrow>
             (let (pcur, w) = commit_specify_mtr (m_pcur node) w
              in Inr (ret, node\<lparr>m_pcur := pcur\<rparr>, w)))"

section \<open>Example states\<close>

text \<open>
  Scenario S6 of the specification: leaf A (block 0, page 3) with the records of keys 1, 2
  and 3 links to leaf B (block 1, page 4) with the keys 4, 5 and 6. Every other block of
  the pool holds an empty page without siblings.
\<close>

definition page_A :: page_t where
  "page_A = \<lparr>page_recs = [[1, 10], [2, 20], [3, 30]], page_next = 4, page_prev = FIL_NULL\<rparr>"

definition page_B :: page_t where
  "page_B = \<lparr>page_recs = [[4, 40], [5, 50], [6, 60]], page_next = FIL_NULL, page_prev = 3\<rparr>"

definition page_empty :: page_t where
  "page_empty = \<lparr>page_recs = [], page_next = FIL_NULL, page_prev = FIL_NULL\<rparr>"

definition blocks_example :: "block_id \<Rightarrow> buf_block_t" where
  "blocks_example b =
     (if b = 0 then
        \<lparr>frame = page_A, blk_modify_clock = 7, blk_space = 0, blk_page_no = 3,
         check_index_page_at_flush = False\<rparr>
      else if b = 1 then
        \<lparr>frame = page_B, blk_modify_clock = 9, blk_space = 0, blk_page_no = 4,
         check_index_page_at_flush = False\<rparr>
      else
        \<lparr>frame = page_empty, blk_modify_clock = 0, blk_space = 0, blk_page_no = 5,
         check_index_page_at_flush = False\<rparr>)"

definition world_example :: world where
  "world_example =
     \<lparr>blocks = blocks_example,
      page_hash = (\<lambda>space page_no. if page_no = 3 then 0 else if page_no = 4 then 1 else 2),
      bp_available = (\<lambda>b. True),
      mtr_state = MTR_ACTIVE,
      mtr_memo = [],
      trace = []\<rparr>"

definition index_example :: dict_index_t where
  "index_example = \<lparr>index_id = 1, n_uniq_in_tree = 1\<rparr>"

text \<open>A positioned cursor, latched for reading, at a place of a block.\<close>

definition cursor_example :: "block_id \<Rightarrow> page_offs \<Rightarrow> btr_pcur_t" where
  "cursor_example b offs =
     \<lparr>btr_cur = \<lparr>m_index = index_example,
                 m_page_cur = \<lparr>pc_rec = (b, offs), pc_block = b\<rparr>,
                 left_block = 0\<rparr>,
      latch_mode = BTR_SEARCH_LEAF,
      old_stored = BTR_PCUR_OLD_NOT_STORED,
      old_rec = None,
      old_n_fields = 0,
      rel_pos = BTR_PCUR_ON,
      block_when_stored = 0,
      modify_clock = 0,
      pos_state = BTR_PCUR_IS_POSITIONED,
      search_mode = PAGE_CUR_GE,
      trx_if_known = None,
      old_rec_buf = None\<rparr>"

text \<open>
  An environment for the examples. The search looks at block 0 only and compares the first
  field: it lands on the last record less than (or equal to) the tuple for \<open>PAGE_CUR_L\<close>
  (\<open>PAGE_CUR_LE\<close>), on the first record greater than (or equal to) it for \<open>PAGE_CUR_G\<close>
  (\<open>PAGE_CUR_GE\<close>), and on the infimum or the supremum when there is none. The
  comparison is on the fields of the tuple, the opening at a side of the tree lands in
  block 2, and the move to the next user record goes to the first record of leaf B.
\<close>

definition search_example :: "page_t \<Rightarrow> dtuple_t \<Rightarrow> ib_srch_mode_t \<Rightarrow> page_offs" where
  "search_example page tuple mode =
     (let keys = map hd (page_recs page);
          below = length (filter (\<lambda>k. k < hd tuple) keys);
          upto = length (filter (\<lambda>k. k \<le> hd tuple) keys)
      in case mode of
           PAGE_CUR_L \<Rightarrow> (if below = 0 then Infimum else User_rec (below - 1))
         | PAGE_CUR_LE \<Rightarrow> (if upto = 0 then Infimum else User_rec (upto - 1))
         | PAGE_CUR_G \<Rightarrow> (if upto < length keys then User_rec upto else Supremum)
         | _ \<Rightarrow> (if below < length keys then User_rec below else Supremum))"

definition env_example :: env where
  "env_example =
     \<lparr>btr_cur_search_to_nth_level =
        (\<lambda>index tuple mode latch cur w.
           (cur\<lparr>m_page_cur := \<lparr>pc_rec = (0, search_example (frame (blocks w 0)) tuple mode),
                               pc_block = 0\<rparr>\<rparr>,
            w\<lparr>mtr_memo := mtr_memo w @ [(0, latch)]\<rparr>)),
      btr_cur_open_at_index_side_oracle =
        (\<lambda>from_left index latch cur w.
           (cur\<lparr>m_page_cur := \<lparr>pc_rec = (2, if from_left then Infimum else Supremum),
                               pc_block = 2\<rparr>\<rparr>,
            w\<lparr>mtr_memo := mtr_memo w @ [(2, latch)]\<rparr>)),
      cmp_dtuple_rec =
        (\<lambda>tuple rec. if take (length tuple) rec = tuple then 0
                      else if hd tuple < hd rec then - 1 else 1),
      btr_pcur_move_to_next_user_rec =
        (\<lambda>cursor w.
           (cursor\<lparr>btr_cur := (btr_cur cursor)
                      \<lparr>m_page_cur := \<lparr>pc_rec = (1, User_rec 0), pc_block = 1\<rparr>\<rparr>,
                   old_stored := BTR_PCUR_OLD_NOT_STORED\<rparr>, w))\<rparr>"

text \<open>
  The cursor of the examples after \<open>store_position\<close> on the record of key 2 of leaf A
  (or, for \<open>rel_pos = AFTER\<close>, on the supremum of leaf A, the anchor being the record of
  key 3; for \<open>rel_pos = BEFORE\<close>, on the infimum, the anchor being the record of key 1)
  and the commit of the mini-transaction.
\<close>

definition cursor_committed_example :: "rel_pos_t \<Rightarrow> btr_pcur_t" where
  "cursor_committed_example r =
     (cursor_example 0
        (if r = BTR_PCUR_AFTER then Supremum else if r = BTR_PCUR_BEFORE then Infimum
         else User_rec 1))
       \<lparr>latch_mode := BTR_NO_LATCHES,
        old_stored := BTR_PCUR_OLD_STORED,
        old_rec := Some (if r = BTR_PCUR_AFTER then [3] else if r = BTR_PCUR_BEFORE then [1]
                         else [2]),
        old_n_fields := 1,
        rel_pos := r,
        block_when_stored := 0,
        modify_clock := 7,
        pos_state := BTR_PCUR_WAS_POSITIONED,
        old_rec_buf := Some (if r = BTR_PCUR_AFTER then [3]
                             else if r = BTR_PCUR_BEFORE then [1] else [2])\<rparr>"

text \<open>The state of the examples after a change of leaf A: its modify clock has moved on
  and the record of key 2 is gone.\<close>

definition world_changed_example :: world where
  "world_changed_example =
     world_example\<lparr>blocks := blocks_example
       (0 := \<lparr>frame = page_A\<lparr>page_recs := [[1, 10], [3, 30]]\<rparr>, blk_modify_clock = 8,
              blk_space = 0, blk_page_no = 3, check_index_page_at_flush = False\<rparr>)\<rparr>"

text \<open>
  A second environment, whose search lands on the infimum of leaf B and has latched leaf A
  as the left sibling (a search for the first key of leaf B under \<open>BTR_SEARCH_PREV\<close>).
\<close>

definition env_prev_example :: env where
  "env_prev_example =
     env_example\<lparr>btr_cur_search_to_nth_level :=
       (\<lambda>index tuple mode latch cur w.
          (cur\<lparr>m_page_cur := \<lparr>pc_rec = (1, Infimum), pc_block = 1\<rparr>, left_block := 0\<rparr>,
           w\<lparr>mtr_memo := mtr_memo w @ [(0, BTR_SEARCH_LEAF), (1, BTR_SEARCH_LEAF)]\<rparr>))\<rparr>"

text \<open>
  Row operations for the examples: the search opens the cursor with \<open>PAGE_CUR_LE\<close> and
  has found the record when it lands on a user record that starts with the reference; the
  roll pointer of a record is its second field; a row is the list of the fields of the
  record.
\<close>

definition row_env_example :: row_env where
  "row_env_example =
     \<lparr>row_search_on_row_ref =
        (\<lambda>latch t r pcur w.
           let (pcur, w) = btr_pcur_open_func env_example (first_index t) r PAGE_CUR_LE latch pcur w
           in (btr_pcur_is_on_user_rec pcur \<and>
               take (length r) (rec_get_fields w (btr_pcur_get_rec pcur)) = r, pcur, w)),
      row_get_rec_roll_ptr = (\<lambda>rec index. word_of_nat (rec ! 1)),
      row_build = (\<lambda>index rec. (rec, None)),
      row_upd_replace = (\<lambda>r index u. (foldr (\<lambda>(i, v) r. r[i := v]) u r, None))\<rparr>"

definition undo_node_example :: "nat \<Rightarrow> roll_ptr_t \<Rightarrow> upd_t option \<Rightarrow> Undo_node" where
  "undo_node_example key rp u =
     \<lparr>m_pcur = cursor_example 0 Infimum,
      table = \<lparr>first_index = index_example\<rparr>,
      ref = [key],
      roll_ptr = rp,
      row = None, ext = None, undo_row = None, undo_ext = None,
      update = u\<rparr>"

section \<open>Properties of the transaction id allocation\<close>













section \<open>Properties of the hash table insertion\<close>

lemma ha_chain_update_None:
  "(\<forall>n \<in> set chain. node_fold n \<noteq> fold_v) \<Longrightarrow> ha_chain_update fold_v data chain = None"
  by (induction chain) auto

lemma ha_chain_update_Some:
  "(\<exists>n \<in> set chain. node_fold n = fold_v) \<Longrightarrow>
   ha_chain_update fold_v data chain =
     Some (takeWhile (\<lambda>n. node_fold n \<noteq> fold_v) chain @
           (hd (dropWhile (\<lambda>n. node_fold n \<noteq> fold_v) chain))\<lparr>node_data := data\<rparr> #
           tl (dropWhile (\<lambda>n. node_fold n \<noteq> fold_v) chain))"
  by (induction chain) auto

lemma ha_chain_link_append: "ha_chain_link node chain = chain @ [node]"
  by (induction chain) auto

lemma cells_hash_set_heap [simp]: "cells (hash_set_heap env tbl fold_v h) = cells tbl"
  by (simp add: hash_set_heap_def)

text \<open>
  Claim C7: for every call \<open>ha_insert_for_fold_func(table, fold, data)\<close> (the data
  pointer is only asserted non-null in debug builds; the statement holds for every data
  pointer), with \<open>chain\<close> the chain of the cell of \<open>fold\<close>: if some node of the chain
  has the fold value, the first such node gets the new data pointer, nothing else of the
  table changes (no node is allocated, the heaps are untouched) and \<open>true\<close> is returned;
  otherwise one node is requested from the heap of the stripe of \<open>fold\<close>, and the call
  returns \<open>false\<close>, the chains unchanged, when the allocation fails, and \<open>true\<close> with
  the new node linked at the end of the chain when it succeeds. So \<open>false\<close> is returned
  exactly when no node has the fold value and the allocation fails.
\<close>

theorem ha_insert_for_fold_func_spec:
  assumes "hash = hash_calc_hash env fold_v (hash_get_n_cells tbl)"
    and "hash < hash_get_n_cells tbl"
    and "chain = hash_get_nth_cell tbl hash"
    and "alloc = mem_heap_alloc env (hash_get_heap env tbl fold_v) (sizeof_ha_node_t env)"
  shows
    "((\<exists>n \<in> set chain. node_fold n = fold_v) \<longrightarrow>
        ha_insert_for_fold_func env tbl fold_v data =
          (True, tbl\<lparr>cells := (cells tbl)
             [hash := takeWhile (\<lambda>n. node_fold n \<noteq> fold_v) chain @
                (hd (dropWhile (\<lambda>n. node_fold n \<noteq> fold_v) chain))\<lparr>node_data := data\<rparr> #
                tl (dropWhile (\<lambda>n. node_fold n \<noteq> fold_v) chain)]\<rparr>)) \<and>
     ((\<forall>n \<in> set chain. node_fold n \<noteq> fold_v) \<longrightarrow>
        ha_insert_for_fold_func env tbl fold_v data =
          (case alloc of
             (None, h) \<Rightarrow> (False, hash_set_heap env tbl fold_v h)
           | (Some addr, h) \<Rightarrow>
               (True, (hash_set_heap env tbl fold_v h)\<lparr>cells := (cells tbl)
                  [hash := chain @
                     [\<lparr>node_addr = addr, node_fold = fold_v, node_data = data\<rparr>]]\<rparr>))) \<and>
     (fst (ha_insert_for_fold_func env tbl fold_v data) = False \<longleftrightarrow>
        (\<forall>n \<in> set chain. node_fold n \<noteq> fold_v) \<and> fst alloc = None)"
proof (intro conjI impI)
  assume "\<exists>n \<in> set chain. node_fold n = fold_v"
  then show "ha_insert_for_fold_func env tbl fold_v data =
          (True, tbl\<lparr>cells := (cells tbl)
             [hash := takeWhile (\<lambda>n. node_fold n \<noteq> fold_v) chain @
                (hd (dropWhile (\<lambda>n. node_fold n \<noteq> fold_v) chain))\<lparr>node_data := data\<rparr> #
                tl (dropWhile (\<lambda>n. node_fold n \<noteq> fold_v) chain)]\<rparr>)"
    using assms by (simp add: ha_insert_for_fold_func_def Let_def ha_chain_update_Some)
next
  assume "\<forall>n \<in> set chain. node_fold n \<noteq> fold_v"
  then show "ha_insert_for_fold_func env tbl fold_v data =
          (case alloc of
             (None, h) \<Rightarrow> (False, hash_set_heap env tbl fold_v h)
           | (Some addr, h) \<Rightarrow>
               (True, (hash_set_heap env tbl fold_v h)\<lparr>cells := (cells tbl)
                  [hash := chain @
                     [\<lparr>node_addr = addr, node_fold = fold_v, node_data = data\<rparr>]]\<rparr>))"
    using assms
    by (simp add: ha_insert_for_fold_func_def Let_def ha_chain_update_None
        ha_chain_link_append split: prod.splits option.splits)
next
  show "fst (ha_insert_for_fold_func env tbl fold_v data) = False \<longleftrightarrow>
        (\<forall>n \<in> set chain. node_fold n \<noteq> fold_v) \<and> fst alloc = None"
  proof (cases "\<exists>n \<in> set chain. node_fold n = fold_v")
    case True
    then show ?thesis
      using assms
      by (auto simp add: ha_insert_for_fold_func_def Let_def ha_chain_update_Some)
  next
    case False
    then have "\<forall>n \<in> set chain. node_fold n \<noteq> fold_v" by blast
    then show ?thesis
      using assms
      by (auto simp add: ha_insert_for_fold_func_def Let_def ha_chain_update_None
          split: prod.splits option.splits)
  qed
qed

theorem ha_insert_for_fold_func_spec_witness:
  "ha_insert_for_fold_func ha_env_example (ha_table_example 48) 3 77 =
     (True, \<lparr>cells = [[], [\<lparr>node_addr = 4, node_fold = 1, node_data = 11\<rparr>,
                            \<lparr>node_addr = 28, node_fold = 3, node_data = 77\<rparr>]],
             heaps = [], heap = 48\<rparr>) \<and>
   ha_insert_for_fold_func ha_env_example (ha_table_example 48) 5 55 =
     (True, \<lparr>cells = [[], [\<lparr>node_addr = 4, node_fold = 1, node_data = 11\<rparr>,
                            \<lparr>node_addr = 28, node_fold = 3, node_data = 33\<rparr>,
                            \<lparr>node_addr = 52, node_fold = 5, node_data = 55\<rparr>]],
             heaps = [], heap = 24\<rparr>) \<and>
   ha_insert_for_fold_func ha_env_example (ha_table_example 8) 5 55 =
     (False, ha_table_example 8)"
proof -
  let ?chain = "[\<lparr>node_addr = 4, node_fold = 1, node_data = 11\<rparr>,
                 \<lparr>node_addr = 28, node_fold = (3::ulint), node_data = 33\<rparr>]"
  note defs = ha_env_example_def ha_table_example_def hash_get_n_cells_def
    hash_get_nth_cell_def hash_get_heap_def
  have hash: "1 = hash_calc_hash ha_env_example w (hash_get_n_cells (ha_table_example free))"
    if "w = 3 \<or> w = 5" for w free
    using that by (auto simp add: defs numeral_2_eq_2 [symmetric])
  have less: "1 < hash_get_n_cells (ha_table_example free)" for free
    by (simp add: defs)
  have chain: "?chain = hash_get_nth_cell (ha_table_example free) 1" for free
    by (simp add: defs)
  have alloc: "(Some 52, 24) =
      mem_heap_alloc ha_env_example (hash_get_heap ha_env_example (ha_table_example 48) w)
        (sizeof_ha_node_t ha_env_example)" for w
    by (simp add: defs)
  have no_alloc: "(None, 8) =
      mem_heap_alloc ha_env_example (hash_get_heap ha_env_example (ha_table_example 8) w)
        (sizeof_ha_node_t ha_env_example)" for w
    by (simp add: defs)
  have a: "ha_insert_for_fold_func ha_env_example (ha_table_example 48) 3 77 =
     (True, \<lparr>cells = [[], [\<lparr>node_addr = 4, node_fold = 1, node_data = 11\<rparr>,
                            \<lparr>node_addr = 28, node_fold = 3, node_data = 77\<rparr>]],
             heaps = [], heap = 48\<rparr>)"
    using ha_insert_for_fold_func_spec [OF hash less chain alloc, of 3 77]
    by (simp add: ha_table_example_def)
  have b: "ha_insert_for_fold_func ha_env_example (ha_table_example 48) 5 55 =
     (True, \<lparr>cells = [[], [\<lparr>node_addr = 4, node_fold = 1, node_data = 11\<rparr>,
                            \<lparr>node_addr = 28, node_fold = 3, node_data = 33\<rparr>,
                            \<lparr>node_addr = 52, node_fold = 5, node_data = 55\<rparr>]],
             heaps = [], heap = 24\<rparr>)"
    using ha_insert_for_fold_func_spec [OF hash less chain alloc, of 5 55]
    by (simp add: ha_table_example_def hash_set_heap_def)
  have c: "ha_insert_for_fold_func ha_env_example (ha_table_example 8) 5 55 =
     (False, ha_table_example 8)"
    using ha_insert_for_fold_func_spec [OF hash less chain no_alloc, of 5 55]
    by (simp add: ha_table_example_def hash_set_heap_def)
  show ?thesis using a b c by simp
qed

section \<open>Properties of the persistent cursor\<close>

subsection \<open>Storing the position\<close>

lemmas pcur_accessors =
  btr_pcur_get_btr_cur_def btr_cur_get_index_def btr_pcur_get_page_cur_def
  page_cur_get_rec_def btr_pcur_get_rec_def btr_pcur_get_block_def btr_pcur_get_page_def
  page_offset_def page_rec_is_supremum_low_def page_rec_is_infimum_low_def

lemma btr_pcur_store_position_empty:
  assumes "pos_state cursor = BTR_PCUR_IS_POSITIONED"
    and "latch_mode cursor \<noteq> BTR_NO_LATCHES"
    and "page_get_n_recs (page_align w (btr_pcur_get_rec cursor)) = 0"
    and "btr_page_get_next (page_align w (btr_pcur_get_rec cursor)) = FIL_NULL"
    and "btr_page_get_prev (page_align w (btr_pcur_get_rec cursor)) = FIL_NULL"
  shows "btr_pcur_store_position w cursor =
     Inr (cursor\<lparr>old_stored := BTR_PCUR_OLD_STORED,
                 rel_pos := (if snd (btr_pcur_get_rec cursor) = Supremum
                             then BTR_PCUR_AFTER_LAST_IN_TREE
                             else BTR_PCUR_BEFORE_FIRST_IN_TREE)\<rparr>)"
  using assms by (simp add: btr_pcur_store_position_def Let_def pcur_accessors)

lemma btr_pcur_store_position_nonempty:
  assumes "pos_state cursor = BTR_PCUR_IS_POSITIONED"
    and "latch_mode cursor \<noteq> BTR_NO_LATCHES"
    and "rec = btr_pcur_get_rec cursor"
    and "page = page_align w rec"
    and "page_get_n_recs page \<noteq> 0"
  shows "btr_pcur_store_position w cursor =
     Inr (cursor\<lparr>rel_pos := (case snd rec of Supremum \<Rightarrow> BTR_PCUR_AFTER
                               | Infimum \<Rightarrow> BTR_PCUR_BEFORE | User_rec i \<Rightarrow> BTR_PCUR_ON),
                 old_stored := BTR_PCUR_OLD_STORED,
                 old_rec := Some (take (n_uniq_in_tree (m_index (btr_cur cursor)))
                   (case snd rec of Supremum \<Rightarrow> last (page_recs page)
                    | Infimum \<Rightarrow> hd (page_recs page) | User_rec i \<Rightarrow> rec_get_fields w rec)),
                 old_n_fields := n_uniq_in_tree (m_index (btr_cur cursor)),
                 old_rec_buf := Some (take (n_uniq_in_tree (m_index (btr_cur cursor)))
                   (case snd rec of Supremum \<Rightarrow> last (page_recs page)
                    | Infimum \<Rightarrow> hd (page_recs page) | User_rec i \<Rightarrow> rec_get_fields w rec)),
                 block_when_stored := btr_pcur_get_block cursor,
                 modify_clock := buf_block_get_modify_clock w (btr_pcur_get_block cursor)\<rparr>)"
proof (cases "snd rec")
  case Infimum
  then show ?thesis using assms
    by (cases "page_recs page") (simp_all add: btr_pcur_store_position_def Let_def pcur_accessors
        dict_index_copy_rec_order_prefix_def page_rec_get_next_def rec_get_fields_def
        page_get_n_recs_def page_align_def)
next
  case (User_rec i)
  then show ?thesis using assms
    by (simp add: btr_pcur_store_position_def Let_def pcur_accessors
        dict_index_copy_rec_order_prefix_def)
next
  case Supremum
  then show ?thesis using assms
    by (simp add: btr_pcur_store_position_def Let_def pcur_accessors
        dict_index_copy_rec_order_prefix_def page_rec_get_prev_def rec_get_fields_def
        page_get_n_recs_def page_align_def last_conv_nth)
qed

lemma btr_pcur_store_position_aborts:
  "btr_pcur_store_position w cursor = Inl e \<longleftrightarrow>
     pos_state cursor \<noteq> BTR_PCUR_IS_POSITIONED \<or> latch_mode cursor = BTR_NO_LATCHES \<or>
     (page_get_n_recs (page_align w (btr_pcur_get_rec cursor)) = 0 \<and>
      (btr_page_get_next (page_align w (btr_pcur_get_rec cursor)) \<noteq> FIL_NULL \<or>
       btr_page_get_prev (page_align w (btr_pcur_get_rec cursor)) \<noteq> FIL_NULL))"
  by (cases e) (auto simp add: btr_pcur_store_position_def Let_def pcur_accessors split_beta)

lemma btr_pcur_store_position_frame:
  assumes "btr_pcur_store_position w cursor = Inr c'"
  shows "search_mode c' = search_mode cursor" and "btr_cur c' = btr_cur cursor"
    and "pos_state c' = pos_state cursor" and "latch_mode c' = latch_mode cursor"
    and "old_stored c' = BTR_PCUR_OLD_STORED"
  using assms
  by (auto simp add: btr_pcur_store_position_def Let_def split_beta split: if_splits)

text \<open>
  Claim C3: for every call to \<open>btr_pcur_store_position\<close> on a cursor with
  \<open>pos_state = IS_POSITIONED\<close> (and holding its latch: \<open>latch_mode\<close> is not
  \<open>BTR_NO_LATCHES\<close>, the second assertion of the function), with \<open>page\<close> the page of
  the cursor's record: if the page has no user record and both sibling pointers are
  \<open>FIL_NULL\<close>, only \<open>old_stored\<close> and \<open>rel_pos\<close> change, to \<open>STORED\<close> and to
  \<open>AFTER_LAST_IN_TREE\<close> on the supremum and \<open>BEFORE_FIRST_IN_TREE\<close> otherwise (no
  prefix is copied, \<open>modify_clock\<close> is not captured); if the page has user records, the
  anchor is the last user record with \<open>rel_pos = AFTER\<close> on the supremum, the first
  user record with \<open>rel_pos = BEFORE\<close> on the infimum and the record itself with
  \<open>rel_pos = ON\<close> on a user record, the order prefix of the anchor is copied into the
  buffer of the cursor, and \<open>old_n_fields\<close>, \<open>block_when_stored\<close>, the current
  \<open>modify_clock\<close> of the block and \<open>old_stored = STORED\<close> are recorded.
\<close>

theorem btr_pcur_store_position_spec:
  assumes "pos_state cursor = BTR_PCUR_IS_POSITIONED"
    and "latch_mode cursor \<noteq> BTR_NO_LATCHES"
    and "rec = btr_pcur_get_rec cursor"
    and "page = page_align w rec"
    and "anchor = (case snd rec of Supremum \<Rightarrow> last (page_recs page)
                   | Infimum \<Rightarrow> hd (page_recs page) | User_rec i \<Rightarrow> rec_get_fields w rec)"
    and "n = n_uniq_in_tree (m_index (btr_cur cursor))"
  shows
    "(page_get_n_recs page = 0 \<and> btr_page_get_next page = FIL_NULL \<and>
      btr_page_get_prev page = FIL_NULL \<longrightarrow>
        btr_pcur_store_position w cursor =
          Inr (cursor\<lparr>old_stored := BTR_PCUR_OLD_STORED,
                      rel_pos := (if snd rec = Supremum then BTR_PCUR_AFTER_LAST_IN_TREE
                                  else BTR_PCUR_BEFORE_FIRST_IN_TREE)\<rparr>)) \<and>
     (page_get_n_recs page \<noteq> 0 \<longrightarrow>
        btr_pcur_store_position w cursor =
          Inr (cursor\<lparr>rel_pos := (case snd rec of Supremum \<Rightarrow> BTR_PCUR_AFTER
                                    | Infimum \<Rightarrow> BTR_PCUR_BEFORE
                                    | User_rec i \<Rightarrow> BTR_PCUR_ON),
                      old_stored := BTR_PCUR_OLD_STORED,
                      old_rec := Some (take n anchor),
                      old_n_fields := n,
                      old_rec_buf := Some (take n anchor),
                      block_when_stored := btr_pcur_get_block cursor,
                      modify_clock :=
                        buf_block_get_modify_clock w (btr_pcur_get_block cursor)\<rparr>))"
proof (intro conjI impI)
  assume "page_get_n_recs page = 0 \<and> btr_page_get_next page = FIL_NULL \<and>
      btr_page_get_prev page = FIL_NULL"
  then show "btr_pcur_store_position w cursor =
          Inr (cursor\<lparr>old_stored := BTR_PCUR_OLD_STORED,
                      rel_pos := (if snd rec = Supremum then BTR_PCUR_AFTER_LAST_IN_TREE
                                  else BTR_PCUR_BEFORE_FIRST_IN_TREE)\<rparr>)"
    using btr_pcur_store_position_empty [of cursor w] assms(1-4) by simp
next
  assume "page_get_n_recs page \<noteq> 0"
  then show "btr_pcur_store_position w cursor =
          Inr (cursor\<lparr>rel_pos := (case snd rec of Supremum \<Rightarrow> BTR_PCUR_AFTER
                                    | Infimum \<Rightarrow> BTR_PCUR_BEFORE
                                    | User_rec i \<Rightarrow> BTR_PCUR_ON),
                      old_stored := BTR_PCUR_OLD_STORED,
                      old_rec := Some (take n anchor),
                      old_n_fields := n,
                      old_rec_buf := Some (take n anchor),
                      block_when_stored := btr_pcur_get_block cursor,
                      modify_clock :=
                        buf_block_get_modify_clock w (btr_pcur_get_block cursor)\<rparr>)"
    using btr_pcur_store_position_nonempty [OF assms(1-4)] assms(5,6) by simp
qed

lemmas example_defs =
  world_example_def blocks_example_def page_A_def page_B_def page_empty_def
  cursor_example_def index_example_def

lemmas accessor_defs =
  pcur_accessors page_align_def buf_block_get_frame_def buf_block_get_modify_clock_def
  buf_block_get_space_def page_get_n_recs_def btr_page_get_next_def btr_page_get_prev_def
  rec_get_fields_def

theorem btr_pcur_store_position_spec_witness:
  "btr_pcur_store_position world_example (cursor_example 0 (User_rec 1)) =
     Inr ((cursor_example 0 (User_rec 1))
       \<lparr>rel_pos := BTR_PCUR_ON, old_stored := BTR_PCUR_OLD_STORED, old_rec := Some [2],
        old_n_fields := 1, old_rec_buf := Some [2], block_when_stored := 0,
        modify_clock := 7\<rparr>) \<and>
   btr_pcur_store_position world_example (cursor_example 0 Supremum) =
     Inr ((cursor_example 0 Supremum)
       \<lparr>rel_pos := BTR_PCUR_AFTER, old_stored := BTR_PCUR_OLD_STORED, old_rec := Some [3],
        old_n_fields := 1, old_rec_buf := Some [3], block_when_stored := 0,
        modify_clock := 7\<rparr>) \<and>
   btr_pcur_store_position world_example (cursor_example 1 Infimum) =
     Inr ((cursor_example 1 Infimum)
       \<lparr>rel_pos := BTR_PCUR_BEFORE, old_stored := BTR_PCUR_OLD_STORED, old_rec := Some [4],
        old_n_fields := 1, old_rec_buf := Some [4], block_when_stored := 1,
        modify_clock := 9\<rparr>) \<and>
   btr_pcur_store_position world_example (cursor_example 2 Supremum) =
     Inr ((cursor_example 2 Supremum)
       \<lparr>old_stored := BTR_PCUR_OLD_STORED, rel_pos := BTR_PCUR_AFTER_LAST_IN_TREE\<rparr>)"
proof -
  have pre: "pos_state (cursor_example b offs) = BTR_PCUR_IS_POSITIONED"
    "latch_mode (cursor_example b offs) \<noteq> BTR_NO_LATCHES" for b offs
    by (simp_all add: cursor_example_def)
  have a: "btr_pcur_store_position world_example (cursor_example 0 (User_rec 1)) =
     Inr ((cursor_example 0 (User_rec 1))
       \<lparr>rel_pos := BTR_PCUR_ON, old_stored := BTR_PCUR_OLD_STORED, old_rec := Some [2],
        old_n_fields := 1, old_rec_buf := Some [2], block_when_stored := 0,
        modify_clock := 7\<rparr>)"
    using btr_pcur_store_position_spec [where cursor = "cursor_example 0 (User_rec 1)" and w = world_example,
        OF pre refl refl refl refl]
    by (simp add: example_defs accessor_defs)
  have b: "btr_pcur_store_position world_example (cursor_example 0 Supremum) =
     Inr ((cursor_example 0 Supremum)
       \<lparr>rel_pos := BTR_PCUR_AFTER, old_stored := BTR_PCUR_OLD_STORED, old_rec := Some [3],
        old_n_fields := 1, old_rec_buf := Some [3], block_when_stored := 0,
        modify_clock := 7\<rparr>)"
    using btr_pcur_store_position_spec [where cursor = "cursor_example 0 Supremum" and w = world_example,
        OF pre refl refl refl refl]
    by (simp add: example_defs accessor_defs)
  have c: "btr_pcur_store_position world_example (cursor_example 1 Infimum) =
     Inr ((cursor_example 1 Infimum)
       \<lparr>rel_pos := BTR_PCUR_BEFORE, old_stored := BTR_PCUR_OLD_STORED, old_rec := Some [4],
        old_n_fields := 1, old_rec_buf := Some [4], block_when_stored := 1,
        modify_clock := 9\<rparr>)"
    using btr_pcur_store_position_spec [where cursor = "cursor_example 1 Infimum" and w = world_example,
        OF pre refl refl refl refl]
    by (simp add: example_defs accessor_defs)
  have d: "btr_pcur_store_position world_example (cursor_example 2 Supremum) =
     Inr ((cursor_example 2 Supremum)
       \<lparr>old_stored := BTR_PCUR_OLD_STORED, rel_pos := BTR_PCUR_AFTER_LAST_IN_TREE\<rparr>)"
    using btr_pcur_store_position_spec [where cursor = "cursor_example 2 Supremum" and w = world_example,
        OF pre refl refl refl refl]
    by (simp add: example_defs accessor_defs)
  show ?thesis using a b c d by simp
qed

subsection \<open>Restoring the position\<close>

lemma buf_page_optimistic_get_True:
  assumes "buf_page_optimistic_get latch block clock w = (True, w')"
  shows "w' = w\<lparr>trace := trace w @ [Ev_optimistic_get latch block clock True],
                 mtr_memo := mtr_memo w @ [(block, latch)]\<rparr>"
    and "bp_available w block"
    and "buf_block_get_modify_clock w block = clock"
  using assms
  by (auto simp add: buf_page_optimistic_get_def Let_def buf_block_get_modify_clock_def
      split: if_splits)

lemma buf_page_optimistic_get_succeeds:
  assumes "bp_available w block" and "buf_block_get_modify_clock w block = clock"
  shows "buf_page_optimistic_get latch block clock w =
           (True, w\<lparr>trace := trace w @ [Ev_optimistic_get latch block clock True],
                    mtr_memo := mtr_memo w @ [(block, latch)]\<rparr>)"
  using assms
  by (simp add: buf_page_optimistic_get_def Let_def buf_block_get_modify_clock_def)

lemma btr_pcur_restore_position_func_guard:
  assumes "old_stored cursor \<noteq> BTR_PCUR_OLD_STORED \<or>
           (pos_state cursor \<noteq> BTR_PCUR_WAS_POSITIONED \<and>
            pos_state cursor \<noteq> BTR_PCUR_IS_POSITIONED)"
  shows "btr_pcur_restore_position_func env latch cursor w = Inl Assertion_failure"
  using assms by (auto simp add: btr_pcur_restore_position_func_def Let_def)

lemma btr_pcur_restore_position_func_optimistic:
  assumes "old_stored cursor = BTR_PCUR_OLD_STORED"
    and "pos_state cursor = BTR_PCUR_WAS_POSITIONED \<or> pos_state cursor = BTR_PCUR_IS_POSITIONED"
    and "rel_pos cursor \<in> {BTR_PCUR_ON, BTR_PCUR_BEFORE, BTR_PCUR_AFTER}"
    and "old_rec cursor \<noteq> None"
    and "old_n_fields cursor \<noteq> 0"
    and "latch = BTR_SEARCH_LEAF \<or> latch = BTR_MODIFY_LEAF"
    and "buf_page_optimistic_get latch (block_when_stored cursor) (modify_clock cursor) w =
           (True, w')"
  shows "btr_pcur_restore_position_func env latch cursor w =
           (if rel_pos cursor = BTR_PCUR_ON
            then Inr (True, cursor\<lparr>pos_state := BTR_PCUR_IS_POSITIONED, latch_mode := latch\<rparr>, w')
            else Inr (False, cursor\<lparr>pos_state := BTR_PCUR_IS_POSITIONED\<rparr>, w'))"
  using assms
  by (auto simp add: btr_pcur_restore_position_func_def Let_def)

text \<open>
  Claim C2: for every call to \<open>btr_pcur_restore_position_func\<close> with
  \<open>old_stored = STORED\<close>, \<open>rel_pos\<close> one of \<open>ON\<close>, \<open>BEFORE\<close>, \<open>AFTER\<close> and
  \<open>latch_mode\<close> one of \<open>BTR_SEARCH_LEAF\<close>, \<open>BTR_MODIFY_LEAF\<close> that reaches the
  optimistic reacquisition (past the assertions of lines 200 to 225: the cursor was or is
  positioned, \<open>old_rec\<close> and \<open>old_n_fields\<close> are set): if the reacquisition of
  \<open>block_when_stored\<close> against the stored \<open>modify_clock\<close> succeeds, then
  \<open>pos_state\<close> is \<open>IS_POSITIONED\<close> afterwards and the call returns \<open>true\<close> iff
  \<open>rel_pos = ON\<close>, without a tree search: the tree cursor is unchanged and the
  reacquisition is the only call recorded.
\<close>

theorem btr_pcur_restore_position_optimistic_spec:
  assumes "old_stored cursor = BTR_PCUR_OLD_STORED"
    and "pos_state cursor = BTR_PCUR_WAS_POSITIONED \<or> pos_state cursor = BTR_PCUR_IS_POSITIONED"
    and "rel_pos cursor \<in> {BTR_PCUR_ON, BTR_PCUR_BEFORE, BTR_PCUR_AFTER}"
    and "old_rec cursor \<noteq> None"
    and "old_n_fields cursor \<noteq> 0"
    and "latch = BTR_SEARCH_LEAF \<or> latch = BTR_MODIFY_LEAF"
    and "buf_page_optimistic_get latch (block_when_stored cursor) (modify_clock cursor) w =
           (True, w')"
  shows "\<exists>cursor'.
           btr_pcur_restore_position_func env latch cursor w =
             Inr (rel_pos cursor = BTR_PCUR_ON, cursor', w') \<and>
           pos_state cursor' = BTR_PCUR_IS_POSITIONED \<and>
           btr_cur cursor' = btr_cur cursor \<and>
           trace w' = trace w @
             [Ev_optimistic_get latch (block_when_stored cursor) (modify_clock cursor) True]"
  using btr_pcur_restore_position_func_optimistic [OF assms, of env]
    buf_page_optimistic_get_True(1) [OF assms(7)]
  by auto

text \<open>
  Claim C10: when the optimistic reacquisition succeeds and \<open>rel_pos\<close> is \<open>BEFORE\<close>
  or \<open>AFTER\<close>, the call returns \<open>false\<close> and the only field of the cursor that
  changes is \<open>pos_state\<close>, set to \<open>IS_POSITIONED\<close>: \<open>latch_mode\<close> keeps its value
  from before the call (it is assigned the requested latch mode only for \<open>rel_pos = ON\<close>),
  although the block is now latched in the requested mode in the memo of the
  mini-transaction; \<open>old_rec\<close>, \<open>old_n_fields\<close>, \<open>old_stored\<close>,
  \<open>block_when_stored\<close>, \<open>modify_clock\<close> and \<open>rel_pos\<close> are unchanged.
\<close>

theorem btr_pcur_restore_position_optimistic_frame:
  assumes "old_stored cursor = BTR_PCUR_OLD_STORED"
    and "pos_state cursor = BTR_PCUR_WAS_POSITIONED \<or> pos_state cursor = BTR_PCUR_IS_POSITIONED"
    and "rel_pos cursor \<in> {BTR_PCUR_ON, BTR_PCUR_BEFORE, BTR_PCUR_AFTER}"
    and "old_rec cursor \<noteq> None"
    and "old_n_fields cursor \<noteq> 0"
    and "latch = BTR_SEARCH_LEAF \<or> latch = BTR_MODIFY_LEAF"
    and "buf_page_optimistic_get latch (block_when_stored cursor) (modify_clock cursor) w =
           (True, w')"
  shows
    "(rel_pos cursor \<noteq> BTR_PCUR_ON \<longrightarrow>
        btr_pcur_restore_position_func env latch cursor w =
          Inr (False, cursor\<lparr>pos_state := BTR_PCUR_IS_POSITIONED\<rparr>, w')) \<and>
     (rel_pos cursor = BTR_PCUR_ON \<longrightarrow>
        btr_pcur_restore_position_func env latch cursor w =
          Inr (True, cursor\<lparr>pos_state := BTR_PCUR_IS_POSITIONED, latch_mode := latch\<rparr>, w')) \<and>
     (block_when_stored cursor, latch) \<in> set (mtr_memo w') \<and>
     (\<forall>r c' w''. btr_pcur_restore_position_func env latch cursor w = Inr (r, c', w'') \<longrightarrow>
        pos_state c' = BTR_PCUR_IS_POSITIONED \<and>
        latch_mode c' = (if rel_pos cursor = BTR_PCUR_ON then latch else latch_mode cursor) \<and>
        old_rec c' = old_rec cursor \<and> old_n_fields c' = old_n_fields cursor \<and>
        old_stored c' = old_stored cursor \<and>
        block_when_stored c' = block_when_stored cursor \<and>
        modify_clock c' = modify_clock cursor \<and> rel_pos c' = rel_pos cursor \<and>
        btr_cur c' = btr_cur cursor \<and> search_mode c' = search_mode cursor \<and>
        old_rec_buf c' = old_rec_buf cursor \<and> trx_if_known c' = trx_if_known cursor)"
  using btr_pcur_restore_position_func_optimistic [OF assms, of env]
    buf_page_optimistic_get_True(1) [OF assms(7)]
  by auto

lemma btr_pcur_open_with_no_init_func_frame:
  assumes "btr_pcur_open_with_no_init_func env index tuple mode latch cursor w = (c1, w1)"
  shows "rel_pos c1 = rel_pos cursor" and "trace w1 = trace w @ [Ev_tree_search mode latch tuple]"
    and "pos_state c1 = BTR_PCUR_IS_POSITIONED" and "latch_mode c1 = latch"
    and "old_rec c1 = old_rec cursor" and "old_n_fields c1 = old_n_fields cursor"
  using assms
  by (auto simp add: btr_pcur_open_with_no_init_func_def btr_cur_search_leaf_def Let_def
      split_beta)

lemma btr_pcur_restore_position_search_eq:
  assumes "tuple = dict_index_build_data_tuple (m_index (btr_cur cursor)) old (old_n_fields cursor)"
    and "mode = (case rel_pos cursor of BTR_PCUR_ON \<Rightarrow> PAGE_CUR_LE
                 | BTR_PCUR_AFTER \<Rightarrow> PAGE_CUR_G | BTR_PCUR_BEFORE \<Rightarrow> PAGE_CUR_L
                 | _ \<Rightarrow> PAGE_CUR_L)"
    and "btr_pcur_open_with_no_init_func env (m_index (btr_cur cursor)) tuple mode latch
           cursor w0 = (c1, w1)"
  shows "btr_pcur_restore_position_search env latch old cursor w0 =
           (if rel_pos cursor = BTR_PCUR_ON \<and> btr_pcur_is_on_user_rec c1 \<and>
               cmp_dtuple_rec env tuple (rec_get_fields w1 (btr_pcur_get_rec c1)) = 0
            then Inr (True,
                      c1\<lparr>search_mode := search_mode cursor,
                         block_when_stored := btr_pcur_get_block c1,
                         modify_clock := buf_block_get_modify_clock w1 (btr_pcur_get_block c1),
                         old_stored := BTR_PCUR_OLD_STORED\<rparr>, w1)
            else (case btr_pcur_store_position w1 (c1\<lparr>search_mode := search_mode cursor\<rparr>) of
                    Inl e \<Rightarrow> Inl e
                  | Inr c2 \<Rightarrow> Inr (False, c2, w1)))"
proof -
  have m: "(if rel_pos cursor = BTR_PCUR_ON then PAGE_CUR_LE
            else if rel_pos cursor = BTR_PCUR_AFTER then PAGE_CUR_G else PAGE_CUR_L) = mode"
    using assms(2) by (cases "rel_pos cursor") simp_all
  have r: "rel_pos c1 = rel_pos cursor"
    using btr_pcur_open_with_no_init_func_frame(1) [OF assms(3)] .
  show ?thesis
    unfolding btr_pcur_restore_position_search_def Let_def
      btr_cur_get_index_def btr_pcur_get_btr_cur_def m assms(1) [symmetric] assms(3)
    by (auto simp add: r btr_pcur_get_block_def btr_pcur_get_page_cur_def
        btr_pcur_is_on_user_rec_def btr_pcur_is_before_first_on_page_def
        btr_pcur_is_after_last_on_page_def btr_pcur_get_rec_def)
qed

lemma btr_pcur_restore_position_func_pessimistic:
  assumes "old_stored cursor = BTR_PCUR_OLD_STORED"
    and "pos_state cursor = BTR_PCUR_WAS_POSITIONED \<or> pos_state cursor = BTR_PCUR_IS_POSITIONED"
    and "rel_pos cursor \<in> {BTR_PCUR_ON, BTR_PCUR_BEFORE, BTR_PCUR_AFTER}"
    and "old_rec cursor = Some old"
    and "old_n_fields cursor \<noteq> 0"
    and "(latch \<noteq> BTR_SEARCH_LEAF \<and> latch \<noteq> BTR_MODIFY_LEAF \<and> w0 = w) \<or>
         ((latch = BTR_SEARCH_LEAF \<or> latch = BTR_MODIFY_LEAF) \<and>
          buf_page_optimistic_get latch (block_when_stored cursor) (modify_clock cursor) w =
            (False, w0))"
  shows "btr_pcur_restore_position_func env latch cursor w =
           btr_pcur_restore_position_search env latch old cursor w0"
  using assms
  by (auto simp add: btr_pcur_restore_position_func_def Let_def)

text \<open>
  Claim C1: for every call to \<open>btr_pcur_restore_position_func\<close> that takes the
  pessimistic branch (past the assertions, \<open>rel_pos\<close> not a tree sentinel, and the latch
  mode is not \<open>BTR_SEARCH_LEAF\<close> or \<open>BTR_MODIFY_LEAF\<close> or the optimistic reacquisition
  failed, leaving the state \<open>w_tried\<close>): the cursor is opened anew with the search mode
  \<open>PAGE_CUR_LE\<close> for \<open>rel_pos = ON\<close>, \<open>PAGE_CUR_G\<close> for \<open>AFTER\<close> and
  \<open>PAGE_CUR_L\<close> for \<open>BEFORE\<close>, on the tuple built from the stored prefix; the
  \<open>search_mode\<close> of the cursor after the call is the one before the call; the call
  returns \<open>true\<close> iff \<open>rel_pos = ON\<close>, the landing record is a user record and
  \<open>cmp_dtuple_rec\<close> of the tuple and the landing record is 0, and then
  \<open>block_when_stored\<close> and \<open>modify_clock\<close> are those of the new block and
  \<open>old_stored\<close> is \<open>STORED\<close>; in every other case the outcome is that of
  \<open>btr_pcur_store_position\<close> on the new landing, returned with \<open>false\<close>.
\<close>

theorem btr_pcur_restore_position_pessimistic_spec:
  assumes "old_stored cursor = BTR_PCUR_OLD_STORED"
    and "pos_state cursor = BTR_PCUR_WAS_POSITIONED \<or> pos_state cursor = BTR_PCUR_IS_POSITIONED"
    and "rel_pos cursor \<in> {BTR_PCUR_ON, BTR_PCUR_BEFORE, BTR_PCUR_AFTER}"
    and "old_rec cursor = Some old"
    and "old_n_fields cursor \<noteq> 0"
    and "(latch \<noteq> BTR_SEARCH_LEAF \<and> latch \<noteq> BTR_MODIFY_LEAF \<and> w_tried = w) \<or>
         ((latch = BTR_SEARCH_LEAF \<or> latch = BTR_MODIFY_LEAF) \<and>
          buf_page_optimistic_get latch (block_when_stored cursor) (modify_clock cursor) w =
            (False, w_tried))"
    and "tuple = dict_index_build_data_tuple (m_index (btr_cur cursor)) old (old_n_fields cursor)"
    and "mode = (case rel_pos cursor of BTR_PCUR_ON \<Rightarrow> PAGE_CUR_LE
                 | BTR_PCUR_AFTER \<Rightarrow> PAGE_CUR_G | BTR_PCUR_BEFORE \<Rightarrow> PAGE_CUR_L
                 | _ \<Rightarrow> PAGE_CUR_L)"
    and "btr_pcur_open_with_no_init_func env (m_index (btr_cur cursor)) tuple mode latch
           cursor w_tried = (opened, w_opened)"
    and "exact \<longleftrightarrow> rel_pos cursor = BTR_PCUR_ON \<and> btr_pcur_is_on_user_rec opened \<and>
           cmp_dtuple_rec env tuple (rec_get_fields w_opened (btr_pcur_get_rec opened)) = 0"
  shows
    "btr_pcur_restore_position_func env latch cursor w =
       (if exact
        then Inr (True,
                  opened\<lparr>search_mode := search_mode cursor,
                     block_when_stored := btr_pcur_get_block opened,
                     modify_clock := buf_block_get_modify_clock w_opened (btr_pcur_get_block opened),
                     old_stored := BTR_PCUR_OLD_STORED\<rparr>, w_opened)
        else (case btr_pcur_store_position w_opened (opened\<lparr>search_mode := search_mode cursor\<rparr>) of
                Inl e \<Rightarrow> Inl e
              | Inr c2 \<Rightarrow> Inr (False, c2, w_opened))) \<and>
     trace w_opened = trace w_tried @ [Ev_tree_search mode latch tuple] \<and>
     (\<forall>r c' w'. btr_pcur_restore_position_func env latch cursor w = Inr (r, c', w') \<longrightarrow>
        (r \<longleftrightarrow> exact) \<and> search_mode c' = search_mode cursor \<and>
        old_stored c' = BTR_PCUR_OLD_STORED)"
proof -
  have eq: "btr_pcur_restore_position_func env latch cursor w =
       (if exact
        then Inr (True,
                  opened\<lparr>search_mode := search_mode cursor,
                     block_when_stored := btr_pcur_get_block opened,
                     modify_clock := buf_block_get_modify_clock w_opened (btr_pcur_get_block opened),
                     old_stored := BTR_PCUR_OLD_STORED\<rparr>, w_opened)
        else (case btr_pcur_store_position w_opened (opened\<lparr>search_mode := search_mode cursor\<rparr>) of
                Inl e \<Rightarrow> Inl e
              | Inr c2 \<Rightarrow> Inr (False, c2, w_opened)))"
    unfolding btr_pcur_restore_position_func_pessimistic [OF assms(1-6), of env]
      btr_pcur_restore_position_search_eq [OF assms(7-9)]
    using assms(10) by simp
  have tr: "trace w_opened = trace w_tried @ [Ev_tree_search mode latch tuple]"
    using btr_pcur_open_with_no_init_func_frame(2) [OF assms(9)] .
  have post: "(r \<longleftrightarrow> exact) \<and> search_mode c' = search_mode cursor \<and>
        old_stored c' = BTR_PCUR_OLD_STORED"
    if "btr_pcur_restore_position_func env latch cursor w = Inr (r, c', w')" for r c' w'
  proof (cases exact)
    case True
    then show ?thesis using that eq by auto
  next
    case False
    show ?thesis
    proof (cases "btr_pcur_store_position w_opened (opened\<lparr>search_mode := search_mode cursor\<rparr>)")
      case (Inl e)
      then show ?thesis using that eq False by simp
    next
      case (Inr c2)
      then have "c' = c2" and "r = False" using that eq False by simp_all
      then show ?thesis
        using btr_pcur_store_position_frame(1,5) [OF Inr] False by simp
    qed
  qed
  show ?thesis using eq tr post by blast
qed

lemma cursor_committed_example_simps:
  "old_stored (cursor_committed_example r) = BTR_PCUR_OLD_STORED"
  "pos_state (cursor_committed_example r) = BTR_PCUR_WAS_POSITIONED"
  "rel_pos (cursor_committed_example r) = r"
  "old_rec (cursor_committed_example r) =
     Some (if r = BTR_PCUR_AFTER then [3] else if r = BTR_PCUR_BEFORE then [1] else [2])"
  "old_n_fields (cursor_committed_example r) = 1"
  "block_when_stored (cursor_committed_example r) = 0"
  "modify_clock (cursor_committed_example r) = 7"
  "latch_mode (cursor_committed_example r) = BTR_NO_LATCHES"
  "search_mode (cursor_committed_example r) = PAGE_CUR_GE"
  "m_index (btr_cur (cursor_committed_example r)) = index_example"
  by (simp_all add: cursor_committed_example_def cursor_example_def)

lemma optimistic_get_example:
  "buf_page_optimistic_get latch 0 7 world_example =
     (True, world_example\<lparr>trace := [Ev_optimistic_get latch 0 7 True],
                          mtr_memo := [(0, latch)]\<rparr>)"
  by (simp add: buf_page_optimistic_get_def buf_block_get_modify_clock_def Let_def
      world_example_def blocks_example_def)

theorem btr_pcur_restore_position_optimistic_spec_witness:
  "\<exists>cursor'.
     btr_pcur_restore_position_func env_example BTR_SEARCH_LEAF
       (cursor_committed_example BTR_PCUR_ON) world_example =
       Inr (True, cursor',
            world_example\<lparr>trace := [Ev_optimistic_get BTR_SEARCH_LEAF 0 7 True],
                          mtr_memo := [(0, BTR_SEARCH_LEAF)]\<rparr>) \<and>
     pos_state cursor' = BTR_PCUR_IS_POSITIONED \<and>
     btr_cur cursor' = btr_cur (cursor_committed_example BTR_PCUR_ON)"
proof -
  have opt: "buf_page_optimistic_get BTR_SEARCH_LEAF
      (block_when_stored (cursor_committed_example BTR_PCUR_ON))
      (modify_clock (cursor_committed_example BTR_PCUR_ON)) world_example =
      (True, world_example\<lparr>trace := [Ev_optimistic_get BTR_SEARCH_LEAF 0 7 True],
                           mtr_memo := [(0, BTR_SEARCH_LEAF)]\<rparr>)"
    by (simp add: cursor_committed_example_simps optimistic_get_example)
  show ?thesis
    using btr_pcur_restore_position_optimistic_spec
      [where cursor = "cursor_committed_example BTR_PCUR_ON" and latch = BTR_SEARCH_LEAF
        and env = env_example, OF _ _ _ _ _ _ opt]
    by (auto simp add: cursor_committed_example_simps)
qed

theorem btr_pcur_restore_position_optimistic_frame_witness:
  "btr_pcur_restore_position_func env_example BTR_MODIFY_LEAF
     (cursor_committed_example BTR_PCUR_AFTER) world_example =
     Inr (False, (cursor_committed_example BTR_PCUR_AFTER)\<lparr>pos_state := BTR_PCUR_IS_POSITIONED\<rparr>,
          world_example\<lparr>trace := [Ev_optimistic_get BTR_MODIFY_LEAF 0 7 True],
                        mtr_memo := [(0, BTR_MODIFY_LEAF)]\<rparr>) \<and>
   latch_mode ((cursor_committed_example BTR_PCUR_AFTER)\<lparr>pos_state := BTR_PCUR_IS_POSITIONED\<rparr>) =
     BTR_NO_LATCHES \<and>
   (0, BTR_MODIFY_LEAF) \<in> set (mtr_memo
      (world_example\<lparr>trace := [Ev_optimistic_get BTR_MODIFY_LEAF 0 7 True],
                    mtr_memo := [(0, BTR_MODIFY_LEAF)]\<rparr>))"
proof -
  have opt: "buf_page_optimistic_get BTR_MODIFY_LEAF
      (block_when_stored (cursor_committed_example BTR_PCUR_AFTER))
      (modify_clock (cursor_committed_example BTR_PCUR_AFTER)) world_example =
      (True, world_example\<lparr>trace := [Ev_optimistic_get BTR_MODIFY_LEAF 0 7 True],
                           mtr_memo := [(0, BTR_MODIFY_LEAF)]\<rparr>)"
    by (simp add: cursor_committed_example_simps optimistic_get_example)
  show ?thesis
    using btr_pcur_restore_position_optimistic_frame
      [where cursor = "cursor_committed_example BTR_PCUR_AFTER" and latch = BTR_MODIFY_LEAF
        and env = env_example, OF _ _ _ _ _ _ opt]
    by (simp add: cursor_committed_example_simps)
qed

lemmas restore_example_defs =
  example_defs accessor_defs cursor_committed_example_def world_changed_example_def
  env_example_def search_example_def btr_pcur_open_with_no_init_func_def
  btr_cur_search_leaf_def dict_index_build_data_tuple_def buf_page_optimistic_get_def
  btr_pcur_is_on_user_rec_def btr_pcur_is_before_first_on_page_def
  btr_pcur_is_after_last_on_page_def btr_pcur_store_position_def
  dict_index_copy_rec_order_prefix_def Let_def

theorem btr_pcur_restore_position_pessimistic_spec_witness:
  "(\<exists>c' w'.
      btr_pcur_restore_position_func env_example BTR_SEARCH_LEAF
        (cursor_committed_example BTR_PCUR_ON) world_changed_example = Inr (False, c', w') \<and>
      btr_pcur_get_rec c' = (0, User_rec 0) \<and> rel_pos c' = BTR_PCUR_ON \<and>
      old_rec c' = Some [1] \<and> modify_clock c' = 8 \<and> search_mode c' = PAGE_CUR_GE \<and>
      trace w' = [Ev_optimistic_get BTR_SEARCH_LEAF 0 7 False,
                  Ev_tree_search PAGE_CUR_LE BTR_SEARCH_LEAF [2]]) \<and>
   (\<exists>c' w'.
      btr_pcur_restore_position_func env_example BTR_MODIFY_TREE
        (cursor_committed_example BTR_PCUR_ON) world_example = Inr (True, c', w') \<and>
      btr_pcur_get_rec c' = (0, User_rec 1) \<and> old_stored c' = BTR_PCUR_OLD_STORED \<and>
      old_rec c' = Some [2] \<and> modify_clock c' = 7 \<and> search_mode c' = PAGE_CUR_GE \<and>
      trace w' = [Ev_tree_search PAGE_CUR_LE BTR_MODIFY_TREE [2]])"
proof -
  let ?c = "cursor_committed_example BTR_PCUR_ON"
  let ?w0 = "world_changed_example\<lparr>trace := [Ev_optimistic_get BTR_SEARCH_LEAF 0 7 False]\<rparr>"
  let ?o1 = "btr_pcur_open_with_no_init_func env_example (m_index (btr_cur ?c)) [2]
               PAGE_CUR_LE BTR_SEARCH_LEAF ?c ?w0"
  let ?o2 = "btr_pcur_open_with_no_init_func env_example (m_index (btr_cur ?c)) [2]
               PAGE_CUR_LE BTR_MODIFY_TREE ?c world_example"
  have pre: "old_stored ?c = BTR_PCUR_OLD_STORED"
    "pos_state ?c = BTR_PCUR_WAS_POSITIONED \<or> pos_state ?c = BTR_PCUR_IS_POSITIONED"
    "rel_pos ?c \<in> {BTR_PCUR_ON, BTR_PCUR_BEFORE, BTR_PCUR_AFTER}"
    "old_rec ?c = Some [2]" "old_n_fields ?c \<noteq> 0"
    by (simp_all add: cursor_committed_example_simps)
  have tuple: "[2] = dict_index_build_data_tuple (m_index (btr_cur ?c)) [2] (old_n_fields ?c)"
    by (simp add: cursor_committed_example_simps dict_index_build_data_tuple_def)
  have mode: "PAGE_CUR_LE = (case rel_pos ?c of BTR_PCUR_ON \<Rightarrow> PAGE_CUR_LE
                 | BTR_PCUR_AFTER \<Rightarrow> PAGE_CUR_G | BTR_PCUR_BEFORE \<Rightarrow> PAGE_CUR_L
                 | _ \<Rightarrow> PAGE_CUR_L)"
    by (simp add: cursor_committed_example_simps)
  have fail: "(BTR_SEARCH_LEAF \<noteq> BTR_SEARCH_LEAF \<and> BTR_SEARCH_LEAF \<noteq> BTR_MODIFY_LEAF \<and>
               ?w0 = world_changed_example) \<or>
         ((BTR_SEARCH_LEAF = BTR_SEARCH_LEAF \<or> BTR_SEARCH_LEAF = BTR_MODIFY_LEAF) \<and>
          buf_page_optimistic_get BTR_SEARCH_LEAF (block_when_stored ?c) (modify_clock ?c)
            world_changed_example = (False, ?w0))"
    by (simp add: cursor_committed_example_simps buf_page_optimistic_get_def Let_def
        buf_block_get_modify_clock_def world_changed_example_def world_example_def)
  have tree: "(BTR_MODIFY_TREE \<noteq> BTR_SEARCH_LEAF \<and> BTR_MODIFY_TREE \<noteq> BTR_MODIFY_LEAF \<and>
               world_example = world_example) \<or>
         ((BTR_MODIFY_TREE = BTR_SEARCH_LEAF \<or> BTR_MODIFY_TREE = BTR_MODIFY_LEAF) \<and>
          buf_page_optimistic_get BTR_MODIFY_TREE (block_when_stored ?c) (modify_clock ?c)
            world_example = (False, world_example))"
    by simp
  have a: "\<exists>c' w'.
      btr_pcur_restore_position_func env_example BTR_SEARCH_LEAF ?c world_changed_example =
        Inr (False, c', w') \<and>
      btr_pcur_get_rec c' = (0, User_rec 0) \<and> rel_pos c' = BTR_PCUR_ON \<and>
      old_rec c' = Some [1] \<and> modify_clock c' = 8 \<and> search_mode c' = PAGE_CUR_GE \<and>
      trace w' = [Ev_optimistic_get BTR_SEARCH_LEAF 0 7 False,
                  Ev_tree_search PAGE_CUR_LE BTR_SEARCH_LEAF [2]]"
    using btr_pcur_restore_position_pessimistic_spec
      [where env = env_example and opened = "fst ?o1" and w_opened = "snd ?o1",
        OF pre fail tuple mode prod.collapse [symmetric] refl]
    by (simp add: restore_example_defs)
  have b: "\<exists>c' w'.
      btr_pcur_restore_position_func env_example BTR_MODIFY_TREE ?c world_example =
        Inr (True, c', w') \<and>
      btr_pcur_get_rec c' = (0, User_rec 1) \<and> old_stored c' = BTR_PCUR_OLD_STORED \<and>
      old_rec c' = Some [2] \<and> modify_clock c' = 7 \<and> search_mode c' = PAGE_CUR_GE \<and>
      trace w' = [Ev_tree_search PAGE_CUR_LE BTR_MODIFY_TREE [2]]"
    using btr_pcur_restore_position_pessimistic_spec
      [where env = env_example and opened = "fst ?o2" and w_opened = "snd ?o2",
        OF pre tree tuple mode prod.collapse [symmetric] refl]
    by (simp add: restore_example_defs)
  show ?thesis using a b by blast
qed

subsection \<open>Storing and restoring on an unchanged page\<close>

text \<open>
  Claim C4 as stated fails where the cursor is not on a user record: on the supremum of
  leaf A, \<open>store_position\<close> followed at once by \<open>restore_position\<close> returns
  \<open>false\<close> (the position is stored as \<open>AFTER\<close> and the optimistic reacquisition
  succeeds), and so it does on the infimum of the only page of an empty tree (the position
  is a tree sentinel and the cursor is opened again at the side of the tree).
\<close>

theorem store_then_restore_counterexample:
  "pos_state (cursor_example 0 Supremum) = BTR_PCUR_IS_POSITIONED \<and>
   map_sum id fst
     (store_then_restore env_example BTR_SEARCH_LEAF world_example (cursor_example 0 Supremum)
        world_example) = Inr False \<and>
   map_sum id fst
     (store_then_restore env_example BTR_SEARCH_LEAF world_example (cursor_example 2 Infimum)
        world_example) = Inr False"
  by (simp add: store_then_restore_def restore_example_defs
      btr_pcur_restore_position_func_def btr_cur_open_at_index_side_def FIL_NULL_def
      page_rec_get_prev_def)

text \<open>
  Both functions read the pages and the modify clocks of the state only through
  \<open>blocks\<close>; a cursor stored on a user record has \<open>rel_pos = ON\<close> and the record's
  own order prefix as \<open>old_rec\<close>.
\<close>

lemma rec_get_fields_blocks:
  "blocks w1 = blocks w2 \<Longrightarrow> rec_get_fields w1 rec = rec_get_fields w2 rec"
  by (simp add: rec_get_fields_def page_align_def buf_block_get_frame_def
      split: page_offs.splits)

lemma buf_block_get_modify_clock_blocks:
  "blocks w1 = blocks w2 \<Longrightarrow>
   buf_block_get_modify_clock w1 block = buf_block_get_modify_clock w2 block"
  by (simp add: buf_block_get_modify_clock_def)

lemma btr_pcur_store_position_on_user_rec:
  assumes "pos_state cursor = BTR_PCUR_IS_POSITIONED"
    and "latch_mode cursor \<noteq> BTR_NO_LATCHES"
    and "snd (btr_pcur_get_rec cursor) = User_rec i"
    and "i < page_get_n_recs (page_align w (btr_pcur_get_rec cursor))"
  shows "btr_pcur_store_position w cursor =
     Inr (cursor\<lparr>rel_pos := BTR_PCUR_ON,
                 old_stored := BTR_PCUR_OLD_STORED,
                 old_rec := Some (take (n_uniq_in_tree (m_index (btr_cur cursor)))
                   (rec_get_fields w (btr_pcur_get_rec cursor))),
                 old_n_fields := n_uniq_in_tree (m_index (btr_cur cursor)),
                 old_rec_buf := Some (take (n_uniq_in_tree (m_index (btr_cur cursor)))
                   (rec_get_fields w (btr_pcur_get_rec cursor))),
                 block_when_stored := btr_pcur_get_block cursor,
                 modify_clock := buf_block_get_modify_clock w (btr_pcur_get_block cursor)\<rparr>)"
proof -
  have "page_get_n_recs (page_align w (btr_pcur_get_rec cursor)) \<noteq> 0"
    using assms(4) by simp
  from btr_pcur_store_position_nonempty [OF assms(1,2) refl refl this]
  show ?thesis by (simp add: assms(3))
qed

lemma store_then_restore_by_search:
  assumes "pos_state cursor = BTR_PCUR_IS_POSITIONED"
    and "latch_mode cursor \<noteq> BTR_NO_LATCHES"
    and "snd (btr_pcur_get_rec cursor) = User_rec i"
    and "i < page_get_n_recs (page_align w (btr_pcur_get_rec cursor))"
    and "n_uniq_in_tree (m_index (btr_cur cursor)) \<noteq> 0"
    and "blocks w' = blocks w"
    and "\<not> ((latch = BTR_SEARCH_LEAF \<or> latch = BTR_MODIFY_LEAF) \<and>
             bp_available w' (btr_pcur_get_block cursor))"
    and "search_refinds env latch cursor w
           (if latch = BTR_SEARCH_LEAF \<or> latch = BTR_MODIFY_LEAF
            then w'\<lparr>trace := trace w' @
                   [Ev_optimistic_get latch (btr_pcur_get_block cursor)
                      (buf_block_get_modify_clock w (btr_pcur_get_block cursor)) False]\<rparr>
            else w')"
  shows "\<exists>c' w''.
           store_then_restore env latch w cursor w' = Inr (True, c', w'') \<and>
           btr_pcur_get_rec c' = btr_pcur_get_rec cursor \<and>
           btr_pcur_get_block c' = btr_pcur_get_block cursor \<and>
           pos_state c' = BTR_PCUR_IS_POSITIONED"
proof -
  define n where "n = n_uniq_in_tree (m_index (btr_cur cursor))"
  define fields_v where "fields_v = rec_get_fields w (btr_pcur_get_rec cursor)"
  define block where "block = btr_pcur_get_block cursor"
  define clock where "clock = buf_block_get_modify_clock w block"
  define stored where "stored = cursor\<lparr>rel_pos := BTR_PCUR_ON,
                 old_stored := BTR_PCUR_OLD_STORED,
                 old_rec := Some (take n fields_v),
                 old_n_fields := n,
                 old_rec_buf := Some (take n fields_v),
                 block_when_stored := block,
                 modify_clock := clock\<rparr>"
  define w_tried where "w_tried =
           (if latch = BTR_SEARCH_LEAF \<or> latch = BTR_MODIFY_LEAF
            then w'\<lparr>trace := trace w' @ [Ev_optimistic_get latch block clock False]\<rparr>
            else w')"
  define found where "found = btr_cur_search_to_nth_level env (m_index (btr_cur cursor))
                  (take n fields_v) PAGE_CUR_LE latch (btr_cur cursor) w_tried"
  define opened where "opened = btr_pcur_open_with_no_init_func env (m_index (btr_cur stored))
                   (take n fields_v) PAGE_CUR_LE latch stored w_tried"
  have st: "btr_pcur_store_position w cursor = Inr stored"
    unfolding stored_def n_def fields_v_def block_def clock_def
    by (rule btr_pcur_store_position_on_user_rec [OF assms(1-4)])
  have stored_simps: "pos_state stored = BTR_PCUR_IS_POSITIONED"
    "old_stored stored = BTR_PCUR_OLD_STORED" "old_rec stored = Some (take n fields_v)"
    "old_n_fields stored = n" "rel_pos stored = BTR_PCUR_ON" "block_when_stored stored = block"
    "modify_clock stored = clock" "btr_cur stored = btr_cur cursor"
    "search_mode stored = search_mode cursor"
    by (simp_all add: stored_def assms(1))
  have clock: "buf_block_get_modify_clock w' block = clock"
    unfolding clock_def by (rule buf_block_get_modify_clock_blocks [OF assms(6)])
  have tried: "(latch \<noteq> BTR_SEARCH_LEAF \<and> latch \<noteq> BTR_MODIFY_LEAF \<and> w_tried = w') \<or>
         ((latch = BTR_SEARCH_LEAF \<or> latch = BTR_MODIFY_LEAF) \<and>
          buf_page_optimistic_get latch (block_when_stored stored) (modify_clock stored) w' =
            (False, w_tried))"
    using assms(7)
    by (auto simp add: buf_page_optimistic_get_def Let_def clock stored_simps w_tried_def
        block_def)
  have "m_page_cur (fst found) = m_page_cur (btr_cur cursor) \<and>
      blocks (snd found) = blocks w \<and>
      cmp_dtuple_rec env (take n fields_v) fields_v = 0"
    using assms(8)
    unfolding search_refinds_def Let_def found_def n_def fields_v_def w_tried_def
      block_def clock_def .
  then have found: "m_page_cur (fst found) = m_page_cur (btr_cur cursor)"
    "blocks (snd found) = blocks w"
    "cmp_dtuple_rec env (take n fields_v) fields_v = 0"
    by blast+
  have o1: "btr_cur (fst opened) = fst found"
    and o2: "blocks (snd opened) = blocks (snd found)"
    and o4: "pos_state (fst opened) = BTR_PCUR_IS_POSITIONED"
    by (simp_all add: opened_def found_def btr_pcur_open_with_no_init_func_def
        btr_cur_search_leaf_def Let_def split_beta btr_pcur_get_btr_cur_def stored_simps)
  have rec: "btr_pcur_get_rec (fst opened) = btr_pcur_get_rec cursor"
    and blk: "btr_pcur_get_block (fst opened) = btr_pcur_get_block cursor"
    by (simp_all add: btr_pcur_get_rec_def btr_pcur_get_block_def btr_pcur_get_page_cur_def
        page_cur_get_rec_def o1 found(1))
  have user: "btr_pcur_is_on_user_rec (fst opened)"
    by (simp add: btr_pcur_is_on_user_rec_def btr_pcur_is_before_first_on_page_def
        btr_pcur_is_after_last_on_page_def page_rec_is_infimum_low_def
        page_rec_is_supremum_low_def page_offset_def rec assms(3))
  have fields: "rec_get_fields (snd opened) (btr_pcur_get_rec (fst opened)) = fields_v"
    unfolding rec fields_v_def by (rule rec_get_fields_blocks) (simp add: o2 found(2))
  have tuple: "take n fields_v =
      dict_index_build_data_tuple (m_index (btr_cur stored)) (take n fields_v)
        (old_n_fields stored)"
    by (simp add: dict_index_build_data_tuple_def stored_simps)
  have mode: "PAGE_CUR_LE = (case rel_pos stored of BTR_PCUR_ON \<Rightarrow> PAGE_CUR_LE
                 | BTR_PCUR_AFTER \<Rightarrow> PAGE_CUR_G | BTR_PCUR_BEFORE \<Rightarrow> PAGE_CUR_L
                 | _ \<Rightarrow> PAGE_CUR_L)"
    by (simp add: stored_simps)
  have op: "btr_pcur_open_with_no_init_func env (m_index (btr_cur stored))
              (take n fields_v) PAGE_CUR_LE latch stored w_tried = (fst opened, snd opened)"
    by (simp add: opened_def)
  have "btr_pcur_restore_position_func env latch stored w' =
          btr_pcur_restore_position_search env latch (take n fields_v) stored w_tried"
    by (rule btr_pcur_restore_position_func_pessimistic [OF _ _ _ _ _ tried])
      (use assms(5) in \<open>simp_all add: stored_simps n_def\<close>)
  also have "\<dots> = Inr (True,
                      (fst opened)\<lparr>search_mode := search_mode stored,
                         block_when_stored := btr_pcur_get_block (fst opened),
                         modify_clock := buf_block_get_modify_clock (snd opened)
                                           (btr_pcur_get_block (fst opened)),
                         old_stored := BTR_PCUR_OLD_STORED\<rparr>, snd opened)"
    unfolding btr_pcur_restore_position_search_eq [OF tuple mode op]
    using user fields found(3) stored_simps(5) by simp
  finally show ?thesis
    unfolding store_then_restore_def st
    using rec blk o4
    by (simp add: btr_pcur_get_rec_def btr_pcur_get_block_def btr_pcur_get_page_cur_def
        page_cur_get_rec_def)
qed

lemma store_then_restore_off_user_rec:
  assumes "\<not> btr_pcur_is_on_user_rec cursor"
    and "store_then_restore env latch w cursor w' = Inr (r, c', w'')"
  shows "r = False"
proof -
  obtain c1 where st: "btr_pcur_store_position w cursor = Inr c1"
    and re: "btr_pcur_restore_position_func env latch c1 w' = Inr (r, c', w'')"
    using assms(2) by (auto simp add: store_then_restore_def split: sum.splits)
  have "snd (btr_pcur_get_rec cursor) = Infimum \<or> snd (btr_pcur_get_rec cursor) = Supremum"
    using assms(1)
    by (auto simp add: btr_pcur_is_on_user_rec_def btr_pcur_is_before_first_on_page_def
        btr_pcur_is_after_last_on_page_def page_rec_is_infimum_low_def
        page_rec_is_supremum_low_def page_offset_def)
  then have rel: "rel_pos c1 \<noteq> BTR_PCUR_ON"
    using st
    by (auto simp add: btr_pcur_store_position_def Let_def split_beta pcur_accessors
        split: if_splits)
  have open_rel: "rel_pos (fst (btr_pcur_open_with_no_init_func env index tuple mode latch c w0)) =
      rel_pos c" for index tuple mode c w0
    by (simp add: btr_pcur_open_with_no_init_func_def Let_def split_beta)
  show ?thesis
    using re rel
    by (auto simp add: btr_pcur_restore_position_func_def btr_pcur_restore_position_search_def
        Let_def split_beta open_rel split: if_splits option.splits sum.splits)
qed

lemma store_then_restore_optimistic:
  assumes "pos_state cursor = BTR_PCUR_IS_POSITIONED"
    and "latch_mode cursor \<noteq> BTR_NO_LATCHES"
    and "page_get_n_recs (page_align w (btr_pcur_get_rec cursor)) \<noteq> 0"
    and "n_uniq_in_tree (m_index (btr_cur cursor)) \<noteq> 0"
    and "latch = BTR_SEARCH_LEAF \<or> latch = BTR_MODIFY_LEAF"
    and "bp_available w' (btr_pcur_get_block cursor)"
    and "buf_block_get_modify_clock w' (btr_pcur_get_block cursor) =
         buf_block_get_modify_clock w (btr_pcur_get_block cursor)"
  shows "\<exists>c' w''.
           store_then_restore env latch w cursor w' =
             Inr (btr_pcur_is_on_user_rec cursor, c', w'') \<and>
           btr_pcur_get_rec c' = btr_pcur_get_rec cursor \<and>
           btr_cur c' = btr_cur cursor \<and>
           pos_state c' = BTR_PCUR_IS_POSITIONED"
proof -
  let ?rec = "btr_pcur_get_rec cursor"
  let ?page = "page_align w ?rec"
  let ?n = "n_uniq_in_tree (m_index (btr_cur cursor))"
  let ?anchor = "case snd ?rec of Supremum \<Rightarrow> last (page_recs ?page)
                   | Infimum \<Rightarrow> hd (page_recs ?page) | User_rec i \<Rightarrow> rec_get_fields w ?rec"
  let ?c1 = "cursor\<lparr>rel_pos := (case snd ?rec of Supremum \<Rightarrow> BTR_PCUR_AFTER
                                    | Infimum \<Rightarrow> BTR_PCUR_BEFORE
                                    | User_rec i \<Rightarrow> BTR_PCUR_ON),
                      old_stored := BTR_PCUR_OLD_STORED,
                      old_rec := Some (take ?n ?anchor),
                      old_n_fields := ?n,
                      old_rec_buf := Some (take ?n ?anchor),
                      block_when_stored := btr_pcur_get_block cursor,
                      modify_clock :=
                        buf_block_get_modify_clock w (btr_pcur_get_block cursor)\<rparr>"
  have st: "btr_pcur_store_position w cursor = Inr ?c1"
    using btr_pcur_store_position_nonempty [OF assms(1,2) refl refl assms(3)] by simp
  have opt: "buf_page_optimistic_get latch (block_when_stored ?c1) (modify_clock ?c1) w' =
      (True, w'\<lparr>trace := trace w' @
                 [Ev_optimistic_get latch (block_when_stored ?c1) (modify_clock ?c1) True],
               mtr_memo := mtr_memo w' @ [(block_when_stored ?c1, latch)]\<rparr>)"
    by (rule buf_page_optimistic_get_succeeds) (simp_all add: assms(6,7))
  have rel: "rel_pos ?c1 \<in> {BTR_PCUR_ON, BTR_PCUR_BEFORE, BTR_PCUR_AFTER}"
    by (cases "snd ?rec") simp_all
  have on: "rel_pos ?c1 = BTR_PCUR_ON \<longleftrightarrow> btr_pcur_is_on_user_rec cursor"
    by (cases "snd ?rec")
      (simp_all add: btr_pcur_is_on_user_rec_def btr_pcur_is_before_first_on_page_def
        btr_pcur_is_after_last_on_page_def page_rec_is_infimum_low_def
        page_rec_is_supremum_low_def page_offset_def)
  have "btr_pcur_restore_position_func env latch ?c1 w' =
          (if rel_pos ?c1 = BTR_PCUR_ON
            then Inr (True, ?c1\<lparr>pos_state := BTR_PCUR_IS_POSITIONED, latch_mode := latch\<rparr>,
                      w'\<lparr>trace := trace w' @
                 [Ev_optimistic_get latch (block_when_stored ?c1) (modify_clock ?c1) True],
               mtr_memo := mtr_memo w' @ [(block_when_stored ?c1, latch)]\<rparr>)
            else Inr (False, ?c1\<lparr>pos_state := BTR_PCUR_IS_POSITIONED\<rparr>,
                      w'\<lparr>trace := trace w' @
                 [Ev_optimistic_get latch (block_when_stored ?c1) (modify_clock ?c1) True],
               mtr_memo := mtr_memo w' @ [(block_when_stored ?c1, latch)]\<rparr>))"
    by (rule btr_pcur_restore_position_func_optimistic [OF _ _ rel _ _ assms(5) opt])
      (simp_all add: assms(1,4))
  then show ?thesis
    unfolding store_then_restore_def st using on
    by (auto simp add: btr_pcur_get_rec_def btr_pcur_get_page_cur_def)
qed

text \<open>
  Claim C4, amended: for every positioned persistent cursor that holds its latch on a user
  record of an unmodified tree (the pages and their modify clocks are the same at both
  calls; the index has a non-empty order prefix), \<open>store_position\<close> followed by
  \<open>restore_position\<close> returns \<open>true\<close> and leaves the cursor positioned on the
  same record of the same block, in every latch mode: through the optimistic reacquisition
  under \<open>BTR_SEARCH_LEAF\<close> or \<open>BTR_MODIFY_LEAF\<close> when the block is still
  available, and otherwise (another latch mode, or the reacquisition failed) through the
  search of lines 259 to 306, provided the search for the stored prefix in the mode
  \<open>PAGE_CUR_LE\<close> lands on that record again, leaves the pages as they are, and the
  comparison finds the prefix equal to the record (\<open>search_refinds\<close>). For a cursor
  that is not on a user record (on the infimum or the supremum) every returning call gives
  \<open>false\<close>. On a page with at least one user record whose block is reacquired
  optimistically with the same modify clock, the cursor keeps its place on the infimum and
  the supremum too, and the result is \<open>true\<close> iff the cursor is on a user record.
\<close>
theorem store_then_restore_spec:
  assumes "pos_state cursor = BTR_PCUR_IS_POSITIONED"
    and "latch_mode cursor \<noteq> BTR_NO_LATCHES"
  shows
    "(snd (btr_pcur_get_rec cursor) = User_rec i \<and>
      i < page_get_n_recs (page_align w (btr_pcur_get_rec cursor)) \<and>
      n_uniq_in_tree (m_index (btr_cur cursor)) \<noteq> 0 \<and>
      blocks w' = blocks w \<and>
      ((latch = BTR_SEARCH_LEAF \<or> latch = BTR_MODIFY_LEAF) \<and>
         bp_available w' (btr_pcur_get_block cursor) \<or>
       search_refinds env latch cursor w
         (if latch = BTR_SEARCH_LEAF \<or> latch = BTR_MODIFY_LEAF
          then w'\<lparr>trace := trace w' @
                 [Ev_optimistic_get latch (btr_pcur_get_block cursor)
                    (buf_block_get_modify_clock w (btr_pcur_get_block cursor)) False]\<rparr>
          else w')) \<longrightarrow>
      (\<exists>c' w''.
         store_then_restore env latch w cursor w' = Inr (True, c', w'') \<and>
         btr_pcur_get_rec c' = btr_pcur_get_rec cursor \<and>
         btr_pcur_get_block c' = btr_pcur_get_block cursor \<and>
         pos_state c' = BTR_PCUR_IS_POSITIONED)) \<and>
     (\<not> btr_pcur_is_on_user_rec cursor \<longrightarrow>
      (\<forall>r c' w''. store_then_restore env latch w cursor w' = Inr (r, c', w'') \<longrightarrow> \<not> r)) \<and>
     (page_get_n_recs (page_align w (btr_pcur_get_rec cursor)) \<noteq> 0 \<and>
      n_uniq_in_tree (m_index (btr_cur cursor)) \<noteq> 0 \<and>
      (latch = BTR_SEARCH_LEAF \<or> latch = BTR_MODIFY_LEAF) \<and>
      bp_available w' (btr_pcur_get_block cursor) \<and>
      buf_block_get_modify_clock w' (btr_pcur_get_block cursor) =
        buf_block_get_modify_clock w (btr_pcur_get_block cursor) \<longrightarrow>
      (\<exists>c' w''.
         store_then_restore env latch w cursor w' =
           Inr (btr_pcur_is_on_user_rec cursor, c', w'') \<and>
         btr_pcur_get_rec c' = btr_pcur_get_rec cursor \<and>
         btr_cur c' = btr_cur cursor \<and>
         pos_state c' = BTR_PCUR_IS_POSITIONED))"
proof -
  let ?block = "btr_pcur_get_block cursor"
  let ?leaf = "latch = BTR_SEARCH_LEAF \<or> latch = BTR_MODIFY_LEAF"
  let ?w_tried = "if ?leaf
          then w'\<lparr>trace := trace w' @
                 [Ev_optimistic_get latch ?block (buf_block_get_modify_clock w ?block) False]\<rparr>
          else w'"
  have user: "\<exists>c' w''.
         store_then_restore env latch w cursor w' = Inr (True, c', w'') \<and>
         btr_pcur_get_rec c' = btr_pcur_get_rec cursor \<and>
         btr_pcur_get_block c' = btr_pcur_get_block cursor \<and>
         pos_state c' = BTR_PCUR_IS_POSITIONED"
    if rec: "snd (btr_pcur_get_rec cursor) = User_rec i"
      and i: "i < page_get_n_recs (page_align w (btr_pcur_get_rec cursor))"
      and n: "n_uniq_in_tree (m_index (btr_cur cursor)) \<noteq> 0"
      and same: "blocks w' = blocks w"
      and how: "?leaf \<and> bp_available w' ?block \<or> search_refinds env latch cursor w ?w_tried"
  proof (cases "?leaf \<and> bp_available w' ?block")
    case True
    have nonempty: "page_get_n_recs (page_align w (btr_pcur_get_rec cursor)) \<noteq> 0"
      using i by simp
    have clock: "buf_block_get_modify_clock w' ?block = buf_block_get_modify_clock w ?block"
      by (rule buf_block_get_modify_clock_blocks [OF same])
    have on: "btr_pcur_is_on_user_rec cursor"
      by (simp add: btr_pcur_is_on_user_rec_def btr_pcur_is_before_first_on_page_def
          btr_pcur_is_after_last_on_page_def page_rec_is_infimum_low_def
          page_rec_is_supremum_low_def page_offset_def rec)
    from store_then_restore_optimistic [OF assms nonempty n conjunct1 [OF True]
        conjunct2 [OF True] clock, of env]
    show ?thesis
      unfolding btr_pcur_get_block_def btr_pcur_get_page_cur_def using on by auto
  next
    case False
    then have "search_refinds env latch cursor w ?w_tried"
      using how by blast
    from store_then_restore_by_search [OF assms rec i n same False this]
    show ?thesis .
  qed
  have off: "\<not> r" if "\<not> btr_pcur_is_on_user_rec cursor"
    and "store_then_restore env latch w cursor w' = Inr (r, c', w'')" for r c' w''
    using store_then_restore_off_user_rec [OF that] by simp
  have opt: "\<exists>c' w''.
         store_then_restore env latch w cursor w' =
           Inr (btr_pcur_is_on_user_rec cursor, c', w'') \<and>
         btr_pcur_get_rec c' = btr_pcur_get_rec cursor \<and>
         btr_cur c' = btr_cur cursor \<and>
         pos_state c' = BTR_PCUR_IS_POSITIONED"
    if "page_get_n_recs (page_align w (btr_pcur_get_rec cursor)) \<noteq> 0"
      and "n_uniq_in_tree (m_index (btr_cur cursor)) \<noteq> 0"
      and "?leaf" and "bp_available w' ?block"
      and "buf_block_get_modify_clock w' ?block = buf_block_get_modify_clock w ?block"
    by (rule store_then_restore_optimistic [OF assms that])
  show ?thesis
    using user off opt by blast
qed

theorem store_then_restore_spec_witness:
  "(\<exists>c' w''.
      store_then_restore env_example BTR_MODIFY_TREE world_example
        (cursor_example 0 (User_rec 1)) world_example = Inr (True, c', w'') \<and>
      btr_pcur_get_rec c' = (0, User_rec 1) \<and> pos_state c' = BTR_PCUR_IS_POSITIONED) \<and>
   (\<exists>c' w''.
      store_then_restore env_example BTR_SEARCH_LEAF world_example
        (cursor_example 0 (User_rec 1)) (world_example\<lparr>bp_available := \<lambda>b. False\<rparr>) =
        Inr (True, c', w'') \<and>
      btr_pcur_get_rec c' = (0, User_rec 1) \<and> pos_state c' = BTR_PCUR_IS_POSITIONED) \<and>
   (\<exists>c' w''.
      store_then_restore env_example BTR_SEARCH_LEAF world_example
        (cursor_example 0 (User_rec 1)) world_example = Inr (True, c', w'') \<and>
      btr_pcur_get_rec c' = (0, User_rec 1) \<and> pos_state c' = BTR_PCUR_IS_POSITIONED) \<and>
   (\<exists>c' w''.
      store_then_restore env_example BTR_MODIFY_LEAF world_example
        (cursor_example 1 Infimum) world_example = Inr (False, c', w'') \<and>
      btr_pcur_get_rec c' = (1, Infimum) \<and> pos_state c' = BTR_PCUR_IS_POSITIONED)"
proof -
  have pre: "pos_state (cursor_example b offs) = BTR_PCUR_IS_POSITIONED"
    "latch_mode (cursor_example b offs) \<noteq> BTR_NO_LATCHES" for b offs
    by (simp_all add: cursor_example_def)
  have rec: "btr_pcur_get_rec (cursor_example b offs) = (b, offs)" for b offs
    by (simp add: cursor_example_def pcur_accessors)
  have blk: "btr_pcur_get_block (cursor_example b offs) = b" for b offs
    by (simp add: cursor_example_def pcur_accessors)
  have page: "page_get_n_recs (page_align world_example (b, offs)) = 3"
    if "b = 0 \<or> b = 1" for b offs
    using that by (auto simp add: example_defs accessor_defs)
  have idx: "n_uniq_in_tree (m_index (btr_cur (cursor_example b offs))) = 1" for b offs
    by (simp add: example_defs)
  have av: "bp_available world_example b" for b
    by (simp add: world_example_def)
  have on: "btr_pcur_is_on_user_rec (cursor_example b offs) \<longleftrightarrow>
      offs \<noteq> Infimum \<and> offs \<noteq> Supremum" for b offs
    by (auto simp add: btr_pcur_is_on_user_rec_def btr_pcur_is_before_first_on_page_def
        btr_pcur_is_after_last_on_page_def cursor_example_def pcur_accessors)
  have refinds: "search_refinds env_example latch (cursor_example 0 (User_rec 1))
      world_example w_tried" if "blocks w_tried = blocks world_example" for latch w_tried
    using that
    by (simp add: search_refinds_def Let_def env_example_def search_example_def example_defs
        accessor_defs)
  have a: "\<exists>c' w''.
      store_then_restore env_example BTR_MODIFY_TREE world_example
        (cursor_example 0 (User_rec 1)) world_example = Inr (True, c', w'') \<and>
      btr_pcur_get_rec c' = (0, User_rec 1) \<and> pos_state c' = BTR_PCUR_IS_POSITIONED"
    using store_then_restore_spec [where cursor = "cursor_example 0 (User_rec 1)"
        and w = world_example and w' = world_example and latch = BTR_MODIFY_TREE
        and env = env_example and i = 1, OF pre]
      refinds [of world_example BTR_MODIFY_TREE]
    unfolding rec blk idx by (auto simp add: page)
  have b: "\<exists>c' w''.
      store_then_restore env_example BTR_SEARCH_LEAF world_example
        (cursor_example 0 (User_rec 1)) (world_example\<lparr>bp_available := \<lambda>b. False\<rparr>) =
        Inr (True, c', w'') \<and>
      btr_pcur_get_rec c' = (0, User_rec 1) \<and> pos_state c' = BTR_PCUR_IS_POSITIONED"
    using store_then_restore_spec [where cursor = "cursor_example 0 (User_rec 1)"
        and w = world_example and w' = "world_example\<lparr>bp_available := \<lambda>b. False\<rparr>"
        and latch = BTR_SEARCH_LEAF and env = env_example and i = 1, OF pre]
      refinds [of "world_example\<lparr>bp_available := \<lambda>b. False,
         trace := trace (world_example\<lparr>bp_available := \<lambda>b. False\<rparr>) @
           [Ev_optimistic_get BTR_SEARCH_LEAF 0
              (buf_block_get_modify_clock world_example 0) False]\<rparr>" BTR_SEARCH_LEAF]
    unfolding rec blk idx by (auto simp add: page)
  have c: "\<exists>c' w''.
      store_then_restore env_example BTR_SEARCH_LEAF world_example
        (cursor_example 0 (User_rec 1)) world_example = Inr (True, c', w'') \<and>
      btr_pcur_get_rec c' = (0, User_rec 1) \<and> pos_state c' = BTR_PCUR_IS_POSITIONED"
    using store_then_restore_spec [where cursor = "cursor_example 0 (User_rec 1)"
        and w = world_example and w' = world_example and latch = BTR_SEARCH_LEAF
        and env = env_example and i = 1, OF pre]
    unfolding rec blk idx by (auto simp add: page av)
  have d: "\<exists>c' w''.
      store_then_restore env_example BTR_MODIFY_LEAF world_example
        (cursor_example 1 Infimum) world_example = Inr (False, c', w'') \<and>
      btr_pcur_get_rec c' = (1, Infimum) \<and> pos_state c' = BTR_PCUR_IS_POSITIONED"
    using store_then_restore_spec [where cursor = "cursor_example 1 Infimum"
        and w = world_example and w' = world_example and latch = BTR_MODIFY_LEAF
        and env = env_example and i = 0, OF pre]
    unfolding rec blk idx on by (auto simp add: page av)
  show ?thesis using a b c d by blast
qed

subsection \<open>Moving to a neighbour page\<close>

lemma btr_pcur_move_to_next_page_returns:
  assumes "pos_state cursor = BTR_PCUR_IS_POSITIONED"
  shows "\<exists>c' w'. btr_pcur_move_to_next_page cursor w = Inr (c', w')"
  using assms by (simp add: btr_pcur_move_to_next_page_def Let_def split_beta)

lemma btr_pcur_move_to_next_page_old_stored:
  assumes "btr_pcur_move_to_next_page cursor w = Inr (c', w')"
  shows "old_stored c' = BTR_PCUR_OLD_NOT_STORED"
  using assms
  by (auto simp add: btr_pcur_move_to_next_page_def Let_def split_beta
      page_cur_set_before_first_def split: if_splits)

lemma btr_pcur_move_backward_from_page_old_stored:
  assumes "btr_pcur_move_backward_from_page env cursor w = Inr (c', w')"
  shows "old_stored c' = BTR_PCUR_OLD_NOT_STORED"
  using assms
  by (auto simp add: btr_pcur_move_backward_from_page_def Let_def split_beta
      split: if_splits sum.splits)

lemma btr_pcur_move_backward_from_page_returns:
  assumes "pos_state cursor = BTR_PCUR_IS_POSITIONED"
    and "latch_mode cursor = BTR_SEARCH_LEAF \<or> latch_mode cursor = BTR_MODIFY_LEAF"
    and "btr_pcur_store_position w cursor = Inr stored"
    and "btr_pcur_restore_position_func env
           (if latch_mode cursor = BTR_SEARCH_LEAF then BTR_SEARCH_PREV else BTR_MODIFY_PREV)
           stored (mtr_start (mtr_commit w)) = Inr restored"
  shows "\<exists>c' w'. btr_pcur_move_backward_from_page env cursor w = Inr (c', w')"
  using assms
  by (cases restored)
    (auto simp add: btr_pcur_move_backward_from_page_def Let_def split_beta)

text \<open>
  Claim C9: every call to \<open>btr_pcur_move_to_next_page\<close> and every call to
  \<open>btr_pcur_move_backward_from_page\<close> that returns leaves \<open>old_stored = NOT_STORED\<close>,
  whatever was stored before, so that a \<open>restore_position\<close> on the cursor, without a
  new \<open>store_position\<close>, fails the assertion of lines 200 to 208 in every state and for
  every latch mode. \<open>btr_pcur_move_to_next_page\<close> returns for every positioned cursor;
  \<open>btr_pcur_move_backward_from_page\<close> returns for every positioned cursor latched with
  \<open>BTR_SEARCH_LEAF\<close> or \<open>BTR_MODIFY_LEAF\<close> whose \<open>store_position\<close> and
  \<open>restore_position\<close> inside the call pass their assertions.
\<close>

theorem btr_pcur_move_page_discards_stored_position:
  "(pos_state cursor = BTR_PCUR_IS_POSITIONED \<longrightarrow>
      (\<exists>c' w'. btr_pcur_move_to_next_page cursor w = Inr (c', w'))) \<and>
   (\<forall>c' w'. btr_pcur_move_to_next_page cursor w = Inr (c', w') \<longrightarrow>
      old_stored c' = BTR_PCUR_OLD_NOT_STORED \<and>
      (\<forall>latch w''. btr_pcur_restore_position_func env latch c' w'' = Inl Assertion_failure)) \<and>
   (pos_state cursor = BTR_PCUR_IS_POSITIONED \<and>
    (latch_mode cursor = BTR_SEARCH_LEAF \<or> latch_mode cursor = BTR_MODIFY_LEAF) \<and>
    (\<exists>stored restored. btr_pcur_store_position w cursor = Inr stored \<and>
       btr_pcur_restore_position_func env
         (if latch_mode cursor = BTR_SEARCH_LEAF then BTR_SEARCH_PREV else BTR_MODIFY_PREV)
         stored (mtr_start (mtr_commit w)) = Inr restored) \<longrightarrow>
      (\<exists>c' w'. btr_pcur_move_backward_from_page env cursor w = Inr (c', w'))) \<and>
   (\<forall>c' w'. btr_pcur_move_backward_from_page env cursor w = Inr (c', w') \<longrightarrow>
      old_stored c' = BTR_PCUR_OLD_NOT_STORED \<and>
      (\<forall>latch w''. btr_pcur_restore_position_func env latch c' w'' = Inl Assertion_failure))"
proof (intro conjI impI allI)
  assume "pos_state cursor = BTR_PCUR_IS_POSITIONED"
  then show "\<exists>c' w'. btr_pcur_move_to_next_page cursor w = Inr (c', w')"
    by (rule btr_pcur_move_to_next_page_returns)
next
  fix c' w' assume "btr_pcur_move_to_next_page cursor w = Inr (c', w')"
  then show "old_stored c' = BTR_PCUR_OLD_NOT_STORED"
    by (rule btr_pcur_move_to_next_page_old_stored)
next
  fix c' w' latch w'' assume "btr_pcur_move_to_next_page cursor w = Inr (c', w')"
  then have "old_stored c' = BTR_PCUR_OLD_NOT_STORED"
    by (rule btr_pcur_move_to_next_page_old_stored)
  then show "btr_pcur_restore_position_func env latch c' w'' = Inl Assertion_failure"
    by (simp add: btr_pcur_restore_position_func_guard)
next
  assume "pos_state cursor = BTR_PCUR_IS_POSITIONED \<and>
    (latch_mode cursor = BTR_SEARCH_LEAF \<or> latch_mode cursor = BTR_MODIFY_LEAF) \<and>
    (\<exists>stored restored. btr_pcur_store_position w cursor = Inr stored \<and>
       btr_pcur_restore_position_func env
         (if latch_mode cursor = BTR_SEARCH_LEAF then BTR_SEARCH_PREV else BTR_MODIFY_PREV)
         stored (mtr_start (mtr_commit w)) = Inr restored)"
  then show "\<exists>c' w'. btr_pcur_move_backward_from_page env cursor w = Inr (c', w')"
    using btr_pcur_move_backward_from_page_returns [of cursor w _ env] by blast
next
  fix c' w' assume "btr_pcur_move_backward_from_page env cursor w = Inr (c', w')"
  then show "old_stored c' = BTR_PCUR_OLD_NOT_STORED"
    by (rule btr_pcur_move_backward_from_page_old_stored)
next
  fix c' w' latch w'' assume "btr_pcur_move_backward_from_page env cursor w = Inr (c', w')"
  then have "old_stored c' = BTR_PCUR_OLD_NOT_STORED"
    by (rule btr_pcur_move_backward_from_page_old_stored)
  then show "btr_pcur_restore_position_func env latch c' w'' = Inl Assertion_failure"
    by (simp add: btr_pcur_restore_position_func_guard)
qed

theorem btr_pcur_move_page_discards_stored_position_witness:
  "(\<exists>c' w'.
      btr_pcur_move_to_next_page
        ((cursor_example 0 Supremum)\<lparr>old_stored := BTR_PCUR_OLD_STORED\<rparr>) world_example =
        Inr (c', w') \<and>
      old_stored c' = BTR_PCUR_OLD_NOT_STORED \<and>
      btr_pcur_restore_position_func env_example BTR_SEARCH_LEAF c' w' =
        Inl Assertion_failure) \<and>
   (\<exists>c' w'.
      btr_pcur_move_backward_from_page env_prev_example
        ((cursor_example 1 Infimum)\<lparr>old_stored := BTR_PCUR_OLD_STORED\<rparr>) world_example =
        Inr (c', w') \<and>
      old_stored c' = BTR_PCUR_OLD_NOT_STORED \<and>
      btr_pcur_restore_position_func env_prev_example BTR_SEARCH_LEAF c' w' =
        Inl Assertion_failure)"
proof -
  let ?a = "(cursor_example 0 Supremum)\<lparr>old_stored := BTR_PCUR_OLD_STORED\<rparr>"
  let ?b = "(cursor_example 1 Infimum)\<lparr>old_stored := BTR_PCUR_OLD_STORED\<rparr>"
  have pa: "pos_state ?a = BTR_PCUR_IS_POSITIONED" and pb: "pos_state ?b = BTR_PCUR_IS_POSITIONED"
    and lb: "latch_mode ?b = BTR_SEARCH_LEAF" and nb: "latch_mode ?b \<noteq> BTR_NO_LATCHES"
    by (simp_all add: cursor_example_def)
  have page: "page_get_n_recs (page_align world_example (btr_pcur_get_rec ?b)) \<noteq> 0"
    by (simp add: example_defs accessor_defs)
  note st = btr_pcur_store_position_nonempty [OF pb nb refl refl page]
  have "\<exists>restored. btr_pcur_restore_position_func env_prev_example BTR_SEARCH_PREV
      (projr (btr_pcur_store_position world_example ?b))
      (mtr_start (mtr_commit world_example)) = Inr restored"
    unfolding st
    by (auto simp add: btr_pcur_restore_position_func_def btr_pcur_restore_position_search_def
        restore_example_defs env_prev_example_def mtr_start_def mtr_commit_def)
  then have hyp: "\<exists>stored restored. btr_pcur_store_position world_example ?b = Inr stored \<and>
       btr_pcur_restore_position_func env_prev_example
         (if latch_mode ?b = BTR_SEARCH_LEAF then BTR_SEARCH_PREV else BTR_MODIFY_PREV)
         stored (mtr_start (mtr_commit world_example)) = Inr restored"
    unfolding st lb by simp
  have a: "\<exists>c' w'. btr_pcur_move_to_next_page ?a world_example = Inr (c', w') \<and>
      old_stored c' = BTR_PCUR_OLD_NOT_STORED \<and>
      btr_pcur_restore_position_func env_example BTR_SEARCH_LEAF c' w' = Inl Assertion_failure"
    using btr_pcur_move_page_discards_stored_position [of ?a world_example env_example] pa
    by blast
  have b: "\<exists>c' w'. btr_pcur_move_backward_from_page env_prev_example ?b world_example =
        Inr (c', w') \<and>
      old_stored c' = BTR_PCUR_OLD_NOT_STORED \<and>
      btr_pcur_restore_position_func env_prev_example BTR_SEARCH_LEAF c' w' =
        Inl Assertion_failure"
    using btr_pcur_move_page_discards_stored_position [of ?b world_example env_prev_example]
      pb lb hyp
    by blast
  show ?thesis using a b by blast
qed

text \<open>
  An evaluation of \<open>btr_pcur_move_backward_from_page\<close>: from the infimum of leaf B,
  with a search that lands on that infimum again and has latched leaf A as the left
  sibling, the cursor ends on the supremum of leaf A with its latch mode back to
  \<open>BTR_SEARCH_LEAF\<close>, and the mini-transaction holds the latch on leaf A only.
\<close>

lemma btr_pcur_move_backward_from_page_example:
  "map_sum id (\<lambda>r. (btr_pcur_get_rec (fst r), latch_mode (fst r), mtr_memo (snd r)))
     (btr_pcur_move_backward_from_page env_prev_example (cursor_example 1 Infimum)
        world_example) =
   Inr ((0, Supremum), BTR_SEARCH_LEAF, [(0, BTR_SEARCH_LEAF)])"
  by (simp add: btr_pcur_move_backward_from_page_def btr_pcur_restore_position_func_def
      btr_pcur_restore_position_search_def restore_example_defs env_prev_example_def
      mtr_start_def mtr_commit_def page_rec_get_next_def FIL_NULL_def
      btr_leaf_page_release_def page_cur_set_after_last_def)

subsection \<open>Opening on a user record\<close>

text \<open>
  Claim C8: every call to \<open>btr_pcur_open_on_user_rec_func\<close> with the search mode
  \<open>PAGE_CUR_L\<close> or \<open>PAGE_CUR_LE\<close> ends in the assertion failure of \<open>ut_error\<close>;
  no such call returns. With \<open>PAGE_CUR_G\<close> or \<open>PAGE_CUR_GE\<close> the cursor is opened
  and, when it is then after the last record of its page, moved on by
  \<open>btr_pcur_move_to_next_user_rec\<close>; otherwise it stays where it was opened.
\<close>

theorem btr_pcur_open_on_user_rec_func_spec:
  assumes "opened = btr_pcur_open_func env index tuple mode latch cursor w"
  shows
    "(mode = PAGE_CUR_L \<or> mode = PAGE_CUR_LE \<longrightarrow>
        btr_pcur_open_on_user_rec_func env index tuple mode latch cursor w =
          Inl Assertion_failure \<and>
        (\<forall>r. btr_pcur_open_on_user_rec_func env index tuple mode latch cursor w \<noteq> Inr r)) \<and>
     (mode = PAGE_CUR_G \<or> mode = PAGE_CUR_GE \<longrightarrow>
        btr_pcur_open_on_user_rec_func env index tuple mode latch cursor w =
          Inr (if btr_pcur_is_after_last_on_page (fst opened)
               then btr_pcur_move_to_next_user_rec env (fst opened) (snd opened)
               else opened))"
  using assms
  by (auto simp add: btr_pcur_open_on_user_rec_func_def Let_def split_beta)

theorem btr_pcur_open_on_user_rec_func_spec_witness:
  "btr_pcur_open_on_user_rec_func env_example index_example [2] PAGE_CUR_LE BTR_SEARCH_LEAF
     (cursor_example 0 Infimum) world_example = Inl Assertion_failure \<and>
   btr_pcur_open_on_user_rec_func env_example index_example [2] PAGE_CUR_L BTR_SEARCH_LEAF
     (cursor_example 0 Infimum) world_example = Inl Assertion_failure \<and>
   map_sum id (btr_pcur_get_rec \<circ> fst)
     (btr_pcur_open_on_user_rec_func env_example index_example [2] PAGE_CUR_GE BTR_SEARCH_LEAF
        (cursor_example 0 Infimum) world_example) = Inr (0, User_rec 1) \<and>
   map_sum id (btr_pcur_get_rec \<circ> fst)
     (btr_pcur_open_on_user_rec_func env_example index_example [3] PAGE_CUR_G BTR_SEARCH_LEAF
        (cursor_example 0 Infimum) world_example) = Inr (1, User_rec 0)"
proof -
  note defs = btr_pcur_open_func_def btr_pcur_init_def btr_cur_search_leaf_def
    env_example_def search_example_def example_defs accessor_defs Let_def
    btr_pcur_is_after_last_on_page_def
  have a: "btr_pcur_open_on_user_rec_func env_example index_example [2] PAGE_CUR_LE
     BTR_SEARCH_LEAF (cursor_example 0 Infimum) world_example = Inl Assertion_failure"
    using btr_pcur_open_on_user_rec_func_spec [OF refl, where env = env_example
        and index = index_example and tuple = "[2]" and mode = PAGE_CUR_LE and latch = BTR_SEARCH_LEAF
        and cursor = "cursor_example 0 Infimum" and w = world_example]
    by simp
  have b: "btr_pcur_open_on_user_rec_func env_example index_example [2] PAGE_CUR_L
     BTR_SEARCH_LEAF (cursor_example 0 Infimum) world_example = Inl Assertion_failure"
    using btr_pcur_open_on_user_rec_func_spec [OF refl, where env = env_example
        and index = index_example and tuple = "[2]" and mode = PAGE_CUR_L and latch = BTR_SEARCH_LEAF
        and cursor = "cursor_example 0 Infimum" and w = world_example]
    by simp
  have c: "map_sum id (btr_pcur_get_rec \<circ> fst)
     (btr_pcur_open_on_user_rec_func env_example index_example [2] PAGE_CUR_GE BTR_SEARCH_LEAF
        (cursor_example 0 Infimum) world_example) = Inr (0, User_rec 1)"
    using btr_pcur_open_on_user_rec_func_spec [OF refl, where env = env_example
        and index = index_example and tuple = "[2]" and mode = PAGE_CUR_GE and latch = BTR_SEARCH_LEAF
        and cursor = "cursor_example 0 Infimum" and w = world_example]
    by (simp add: defs)
  have d: "map_sum id (btr_pcur_get_rec \<circ> fst)
     (btr_pcur_open_on_user_rec_func env_example index_example [3] PAGE_CUR_G BTR_SEARCH_LEAF
        (cursor_example 0 Infimum) world_example) = Inr (1, User_rec 0)"
    using btr_pcur_open_on_user_rec_func_spec [OF refl, where env = env_example
        and index = index_example and tuple = "[3]" and mode = PAGE_CUR_G and latch = BTR_SEARCH_LEAF
        and cursor = "cursor_example 0 Infimum" and w = world_example]
    by (simp add: defs)
  show ?thesis using a b c d by simp
qed

section \<open>Properties of the row undo search\<close>

lemma commit_specify_mtr_eq:
  "commit_specify_mtr pcur w =
     (pcur\<lparr>latch_mode := BTR_NO_LATCHES, pos_state := BTR_PCUR_WAS_POSITIONED\<rparr>, mtr_commit w)"
  by (simp add: commit_specify_mtr_def Let_def)

lemma row_undo_search_clust_to_pcur_eq:
  assumes "row_search_on_row_ref renv BTR_MODIFY_LEAF (table node) (ref node) (m_pcur node)
             (mtr_start w) = (found, pcur, w_found)"
    and "rec = rec_get_fields w_found (btr_pcur_get_rec pcur)"
    and "clust_index = get_first_index (table node)"
    and "matches \<longleftrightarrow> found \<and> roll_ptr node = row_get_rec_roll_ptr renv rec clust_index"
  shows "row_undo_search_clust_to_pcur renv node w =
     (if \<not> matches
      then Inr (False,
                node\<lparr>m_pcur := pcur\<lparr>latch_mode := BTR_NO_LATCHES,
                                     pos_state := BTR_PCUR_WAS_POSITIONED\<rparr>\<rparr>,
                mtr_commit w_found)
      else
        (case btr_pcur_store_position w_found pcur of
           Inl err \<Rightarrow> Inl err
         | Inr stored \<Rightarrow>
             Inr (True,
                  node\<lparr>row := Some (fst (row_build renv clust_index rec)),
                       ext := snd (row_build renv clust_index rec),
                       undo_row :=
                         (case update node of
                            Some u \<Rightarrow> Some (fst (row_upd_replace renv
                                        (fst (row_build renv clust_index rec)) clust_index u))
                          | None \<Rightarrow> None),
                       undo_ext :=
                         (case update node of
                            Some u \<Rightarrow> snd (row_upd_replace renv
                                        (fst (row_build renv clust_index rec)) clust_index u)
                          | None \<Rightarrow> None),
                       m_pcur := stored\<lparr>latch_mode := BTR_NO_LATCHES,
                                        pos_state := BTR_PCUR_WAS_POSITIONED\<rparr>\<rparr>,
                  mtr_commit w_found)))"
  using assms
  by (auto simp add: row_undo_search_clust_to_pcur_def Let_def split_beta
      commit_specify_mtr_eq dtuple_copy_def split: sum.splits option.splits)

text \<open>
  Claim C6: for every call \<open>row_undo_search_clust_to_pcur(node)\<close>, the call returns
  \<open>false\<close> iff the search of the clustered index on \<open>node->ref\<close> does not find the
  record or the roll pointer of the landing record differs from \<open>node->roll_ptr\<close> (and
  in that case it does return); when it returns \<open>true\<close>, \<open>node->row\<close> is the row
  built from the landing record, \<open>node->undo_row\<close> is that row with the update vector
  applied when \<open>node->update\<close> is set (and null otherwise), and the position of the
  cursor has been stored; in either case the mini-transaction is committed when the
  function returns. A call that finds the record with the roll pointer of the node returns
  \<open>true\<close> whenever \<open>store_position\<close> passes its assertions.
\<close>

theorem row_undo_search_clust_to_pcur_spec:
  assumes "row_search_on_row_ref renv BTR_MODIFY_LEAF (table node) (ref node) (m_pcur node)
             (mtr_start w) = (found, pcur, w_found)"
    and "rec = rec_get_fields w_found (btr_pcur_get_rec pcur)"
    and "clust_index = get_first_index (table node)"
    and "built = fst (row_build renv clust_index rec)"
  shows
    "(\<not> found \<or> roll_ptr node \<noteq> row_get_rec_roll_ptr renv rec clust_index \<longrightarrow>
        (\<exists>node' w'. row_undo_search_clust_to_pcur renv node w = Inr (False, node', w'))) \<and>
     (found \<and> roll_ptr node = row_get_rec_roll_ptr renv rec clust_index \<and>
      (\<exists>stored. btr_pcur_store_position w_found pcur = Inr stored) \<longrightarrow>
        (\<exists>node' w'. row_undo_search_clust_to_pcur renv node w = Inr (True, node', w'))) \<and>
     (\<forall>ret node' w'. row_undo_search_clust_to_pcur renv node w = Inr (ret, node', w') \<longrightarrow>
        (ret = False \<longleftrightarrow>
           \<not> found \<or> roll_ptr node \<noteq> row_get_rec_roll_ptr renv rec clust_index) \<and>
        mtr_state w' = MTR_COMMITTED \<and> mtr_memo w' = [] \<and>
        (ret \<longrightarrow>
           row node' = Some built \<and>
           (\<forall>u. update node = Some u \<longrightarrow>
              undo_row node' = Some (fst (row_upd_replace renv built clust_index u))) \<and>
           (update node = None \<longrightarrow> undo_row node' = None) \<and>
           old_stored (m_pcur node') = BTR_PCUR_OLD_STORED \<and>
           (\<exists>stored. btr_pcur_store_position w_found pcur = Inr stored \<and>
              m_pcur node' = stored\<lparr>latch_mode := BTR_NO_LATCHES,
                                     pos_state := BTR_PCUR_WAS_POSITIONED\<rparr>)))"
proof -
  let ?differs = "\<not> found \<or> roll_ptr node \<noteq> row_get_rec_roll_ptr renv rec clust_index"
  note eq = row_undo_search_clust_to_pcur_eq [OF assms(1-3) refl, unfolded assms(4) [symmetric]]
  have a: "\<exists>node' w'. row_undo_search_clust_to_pcur renv node w = Inr (False, node', w')"
    if "?differs"
    using that unfolding eq by auto
  have b: "\<exists>node' w'. row_undo_search_clust_to_pcur renv node w = Inr (True, node', w')"
    if "found \<and> roll_ptr node = row_get_rec_roll_ptr renv rec clust_index \<and>
      (\<exists>stored. btr_pcur_store_position w_found pcur = Inr stored)"
    using that unfolding eq by auto
  have c: "(ret = False \<longleftrightarrow> ?differs) \<and> mtr_state w' = MTR_COMMITTED \<and> mtr_memo w' = []"
    if "row_undo_search_clust_to_pcur renv node w = Inr (ret, node', w')" for ret node' w'
    using that unfolding eq by (auto simp add: mtr_commit_def split: if_splits sum.splits)
  have d: "row node' = Some built \<and>
           (\<forall>u. update node = Some u \<longrightarrow>
              undo_row node' = Some (fst (row_upd_replace renv built clust_index u))) \<and>
           (update node = None \<longrightarrow> undo_row node' = None) \<and>
           old_stored (m_pcur node') = BTR_PCUR_OLD_STORED \<and>
           (\<exists>stored. btr_pcur_store_position w_found pcur = Inr stored \<and>
              m_pcur node' = stored\<lparr>latch_mode := BTR_NO_LATCHES,
                                     pos_state := BTR_PCUR_WAS_POSITIONED\<rparr>)"
    if r: "row_undo_search_clust_to_pcur renv node w = Inr (ret, node', w')" and "ret"
    for ret node' w'
  proof -
    obtain stored where st: "btr_pcur_store_position w_found pcur = Inr stored"
      and n: "node' = node\<lparr>row := Some built,
                       ext := snd (row_build renv clust_index rec),
                       undo_row :=
                         (case update node of
                            Some u \<Rightarrow> Some (fst (row_upd_replace renv built clust_index u))
                          | None \<Rightarrow> None),
                       undo_ext :=
                         (case update node of
                            Some u \<Rightarrow> snd (row_upd_replace renv built clust_index u)
                          | None \<Rightarrow> None),
                       m_pcur := stored\<lparr>latch_mode := BTR_NO_LATCHES,
                                        pos_state := BTR_PCUR_WAS_POSITIONED\<rparr>\<rparr>"
      using r \<open>ret\<close> unfolding eq by (auto split: if_splits sum.splits)
    show ?thesis
      using n st btr_pcur_store_position_frame(5) [OF st] by simp
  qed
  show ?thesis using a b c d by blast
qed

theorem row_undo_search_clust_to_pcur_spec_witness:
  "(\<exists>node' w'.
      row_undo_search_clust_to_pcur row_env_example
        (undo_node_example 2 20 (Some [(1, 21)])) world_example = Inr (True, node', w') \<and>
      row node' = Some [2, 20] \<and> undo_row node' = Some [2, 21] \<and>
      old_stored (m_pcur node') = BTR_PCUR_OLD_STORED \<and> mtr_state w' = MTR_COMMITTED) \<and>
   (\<exists>node' w'.
      row_undo_search_clust_to_pcur row_env_example
        (undo_node_example 2 99 None) world_example = Inr (False, node', w') \<and>
      mtr_state w' = MTR_COMMITTED)"
proof -
  note defs = row_env_example_def undo_node_example_def btr_pcur_open_func_def
    btr_pcur_init_def btr_cur_search_leaf_def env_example_def search_example_def
    example_defs accessor_defs Let_def mtr_start_def get_first_index_def
    btr_pcur_is_on_user_rec_def btr_pcur_is_before_first_on_page_def
    btr_pcur_is_after_last_on_page_def
  let ?n = "undo_node_example 2 20 (Some [(1, 21)])"
  let ?m = "undo_node_example 2 99 None"
  let ?s = "row_search_on_row_ref row_env_example BTR_MODIFY_LEAF (table ?n) (ref ?n)
              (m_pcur ?n) (mtr_start world_example)"
  let ?rec = "rec_get_fields (snd (snd ?s)) (btr_pcur_get_rec (fst (snd ?s)))"
  have same: "row_search_on_row_ref row_env_example BTR_MODIFY_LEAF (table ?m) (ref ?m)
              (m_pcur ?m) (mtr_start world_example) = ?s"
    by (simp add: undo_node_example_def)
  have s: "?s = (fst ?s, fst (snd ?s), snd (snd ?s))"
    by simp
  have found: "fst ?s"
    by (simp add: defs)
  have rec: "?rec = [2, 20]"
    by (simp add: defs)
  have idx: "get_first_index (table ?n) = index_example" "get_first_index (table ?m) = index_example"
    by (simp_all add: undo_node_example_def get_first_index_def)
  have rp: "roll_ptr ?n = row_get_rec_roll_ptr row_env_example ?rec index_example"
    and rp': "roll_ptr ?m \<noteq> row_get_rec_roll_ptr row_env_example ?rec index_example"
    unfolding rec by (simp_all add: row_env_example_def undo_node_example_def)
  have built: "fst (row_build row_env_example index_example ?rec) = [2, 20]"
    unfolding rec by (simp add: row_env_example_def)
  have upd: "update ?n = Some [(1, 21)]"
    "fst (row_upd_replace row_env_example [2, 20] index_example [(1, 21)]) = [2, 21]"
    by (simp_all add: row_env_example_def undo_node_example_def)
  have st: "\<exists>stored. btr_pcur_store_position (snd (snd ?s)) (fst (snd ?s)) = Inr stored"
    by (auto simp add: defs btr_pcur_store_position_def dict_index_copy_rec_order_prefix_def)
  note t = row_undo_search_clust_to_pcur_spec [OF s refl refl refl, unfolded idx built]
  note t' = row_undo_search_clust_to_pcur_spec [OF s [folded same] refl refl refl,
      unfolded idx same built]
  from t found rp st obtain node' w' where
    r: "row_undo_search_clust_to_pcur row_env_example ?n world_example = Inr (True, node', w')"
    by blast
  from t r upd have a: "row node' = Some [2, 20] \<and> undo_row node' = Some [2, 21] \<and>
      old_stored (m_pcur node') = BTR_PCUR_OLD_STORED \<and> mtr_state w' = MTR_COMMITTED"
    by (metis (no_types, lifting))
  from t' rp' obtain node'' w'' where
    r': "row_undo_search_clust_to_pcur row_env_example ?m world_example = Inr (False, node'', w'')"
    by blast
  from t' r' have b: "mtr_state w'' = MTR_COMMITTED"
    by blast
  show ?thesis using r a r' b by blast
qed

end

